theory Spec2Isabelle
  imports Complex_Main "HOL-Library.AList"
begin

section \<open>Python values, exceptions and JSON bodies\<close>

text \<open>
  Python floats and ints are modelled as real numbers. An exception is a value: every
  function that can raise returns \<open>error + 'a\<close>, with \<open>Inl\<close> the exception.
\<close>

datatype error =
    KeyError string
  | TypeError string
  | ValueError string
  | IndexError string
  | AttributeError string
  | ZeroDivisionError string

text \<open>\<open>str(e)\<close>: a \<open>KeyError\<close> prints the repr of its key, the others their message.\<close>

fun str_of_error :: "error \<Rightarrow> string" where
  "str_of_error (KeyError k) = CHR 0x27 # k @ [CHR 0x27]"
| "str_of_error (TypeError m) = m"
| "str_of_error (ValueError m) = m"
| "str_of_error (IndexError m) = m"
| "str_of_error (AttributeError m) = m"
| "str_of_error (ZeroDivisionError m) = m"

definition ebind :: "error + 'a \<Rightarrow> ('a \<Rightarrow> error + 'b) \<Rightarrow> error + 'b" where
  "ebind m f = (case m of Inl e \<Rightarrow> Inl e | Inr x \<Rightarrow> f x)"

text \<open>
  What \<open>request.get_json()\<close> hands to a handler: the parsed body, \<open>JNull\<close> standing for
  Python's \<open>None\<close>. An object is the list of its items (a dict: keys are distinct).
\<close>

datatype json =
    JNull
  | JBool bool
  | JNum real
  | JStr string
  | JArr "json list"
  | JObj "(string \<times> json) list"

text \<open>Python truth value, as tested by \<open>if not data\<close>.\<close>

fun truthy :: "json \<Rightarrow> bool" where
  "truthy JNull = False"
| "truthy (JBool b) = b"
| "truthy (JNum x) = (x \<noteq> 0)"
| "truthy (JStr s) = (s \<noteq> [])"
| "truthy (JArr xs) = (xs \<noteq> [])"
| "truthy (JObj kvs) = (kvs \<noteq> [])"

text \<open>\<open>data[key]\<close> with a string key: only a dict that holds the key answers.\<close>

fun getitem :: "json \<Rightarrow> string \<Rightarrow> error + json" where
  "getitem (JObj kvs) k = (case map_of kvs k of None \<Rightarrow> Inl (KeyError k) | Some v \<Rightarrow> Inr v)"
| "getitem (JArr xs) k = Inl (TypeError ''list indices must be integers or slices, not str'')"
| "getitem (JStr s) k = Inl (TypeError ''string indices must be integers'')"
| "getitem (JNum x) k = Inl (TypeError ''object is not subscriptable'')"
| "getitem (JBool b) k = Inl (TypeError ''object is not subscriptable'')"
| "getitem JNull k = Inl (TypeError ''object is not subscriptable'')"

text \<open>
  The source hands the field values to numpy and pandas unchecked. Only JSON numbers are
  modelled as numeric cells; any other value is reported as a failure of the conversion.
\<close>

fun as_number :: "json \<Rightarrow> error + real" where
  "as_number (JNum x) = Inr x"
| "as_number v = Inl (ValueError ''could not convert value to float'')"

section \<open>Model artifacts\<close>

text \<open>
  A fitted scikit-learn regressor or scaler is opaque: a function on batches of rows that
  may raise, together with the truth value Python gives the object.
\<close>

record model =
  model_truthy :: bool
  sk_predict :: "real list list \<Rightarrow> error + real list"

record std_scaler =
  scaler_truthy :: bool
  sk_transform :: "real list list \<Rightarrow> error + real list list"

record score =
  r2 :: real
  mae :: real

subsection \<open>ensemble\_model.py\<close>

record EnsembleModel =
  models :: "(string \<times> model) list"
  weights :: "(string \<times> real) list"
  scaler :: std_scaler
  scores :: "(string \<times> score) list option"

text \<open>
  The argument of \<open>predict\<close>: a plain Python list of rows, which has no attribute
  \<open>shape\<close>, or a two-dimensional numpy array with its column count \<open>shape[1]\<close>.
\<close>

datatype array_like =
    PyList "real list list"
  | NdArray nat "real list list"

text \<open>
  The value of \<open>sum(...)\<close>: the integer start value \<open>0\<close> when nothing was added, a
  one-dimensional array afterwards. Addition follows numpy broadcasting.
\<close>

datatype nd = Scalar real | Vec "real list"

fun nd_add :: "nd \<Rightarrow> nd \<Rightarrow> error + nd" where
  "nd_add (Scalar a) (Scalar b) = Inr (Scalar (a + b))"
| "nd_add (Scalar a) (Vec ys) = Inr (Vec (map (\<lambda>y. a + y) ys))"
| "nd_add (Vec xs) (Scalar b) = Inr (Vec (map (\<lambda>x. x + b) xs))"
| "nd_add (Vec xs) (Vec ys) =
     (if length xs = length ys then Inr (Vec (map2 (+) xs ys))
      else if length xs = 1 then Inr (Vec (map (\<lambda>y. hd xs + y) ys))
      else if length ys = 1 then Inr (Vec (map (\<lambda>x. x + hd ys) xs))
      else Inl (ValueError ''operands could not be broadcast together''))"

text \<open>Lines 12--15: scale only what has a \<open>shape\<close> whose second entry is 4.\<close>

fun ensure_scaled :: "EnsembleModel \<Rightarrow> array_like \<Rightarrow> error + real list list" where
  "ensure_scaled e (NdArray c rs) =
     (if c = 4 then sk_transform (scaler e) rs else Inr rs)"
| "ensure_scaled e (PyList rs) = Inr rs"

text \<open>Lines 17--19: every model of the model map predicts, in the map's order.\<close>

fun run_models :: "(string \<times> model) list \<Rightarrow> real list list \<Rightarrow> error + (string \<times> real list) list" where
  "run_models [] X = Inr []"
| "run_models ((name, m) # ms) X =
     ebind (sk_predict m X) (\<lambda>p.
     ebind (run_models ms X) (\<lambda>ps. Inr ((name, p) # ps)))"

text \<open>
  Lines 22--25: the weighted sum over the names of the model map; \<open>self.weights[name]\<close>
  raises \<open>KeyError\<close> for a name without a weight.
\<close>

fun weighted_sum :: "(string \<times> real) list \<Rightarrow> (string \<times> real list) list \<Rightarrow> string list \<Rightarrow> nd \<Rightarrow> error + nd" where
  "weighted_sum ws ps [] acc = Inr acc"
| "weighted_sum ws ps (name # names) acc =
     (case map_of ws name of
        None \<Rightarrow> Inl (KeyError name)
      | Some w \<Rightarrow>
          (case map_of ps name of
             None \<Rightarrow> Inl (KeyError name)
           | Some p \<Rightarrow>
               ebind (nd_add acc (Vec (map (\<lambda>y. w * y) p)))
                 (\<lambda>acc'. weighted_sum ws ps names acc')))"

definition predict :: "EnsembleModel \<Rightarrow> array_like \<Rightarrow> error + nd" where
  "predict e X =
     ebind (ensure_scaled e X) (\<lambda>X_scaled.
     ebind (run_models (models e) X_scaled) (\<lambda>predictions.
     weighted_sum (weights e) predictions (map fst (models e)) (Scalar 0)))"

record model_info =
  info_weights :: "(string \<times> real) list"
  info_models :: "string list"
  info_scores :: "(string \<times> score) list option"

definition get_model_info :: "EnsembleModel \<Rightarrow> model_info" where
  "get_model_info e =
     \<lparr>info_weights = weights e, info_models = map fst (models e), info_scores = scores e\<rparr>"

section \<open>Data frames\<close>

text \<open>
  A pandas frame is modelled column-wise. A cell is a float, \<open>None\<close> standing for NaN;
  every column has one cell per row. The time column \<open>recorded_at\<close> is kept apart from
  the numeric columns, with the calendar fields the deriver reads from it.
\<close>

type_synonym cell = "real option"
type_synonym column = "cell list"

record timestamp =
  instant :: int
  ts_hour :: nat
  ts_dayofweek :: nat
  ts_month :: nat
  ts_dayofyear :: nat

record dataframe =
  recorded_at :: "timestamp list"
  columns :: "(string \<times> column) list"

definition has_col :: "dataframe \<Rightarrow> string \<Rightarrow> bool" where
  "has_col df name = (map_of (columns df) name \<noteq> None)"

definition get_col :: "dataframe \<Rightarrow> string \<Rightarrow> error + column" where
  "get_col df name =
     (case map_of (columns df) name of None \<Rightarrow> Inl (KeyError name) | Some c \<Rightarrow> Inr c)"

definition set_col :: "dataframe \<Rightarrow> string \<Rightarrow> column \<Rightarrow> dataframe" where
  "set_col df name c = df\<lparr>columns := AList.update name c (columns df)\<rparr>"

definition col_map :: "(real \<Rightarrow> cell) \<Rightarrow> column \<Rightarrow> column" where
  "col_map f c = map (\<lambda>x. case x of None \<Rightarrow> None | Some v \<Rightarrow> f v) c"

definition col_zip :: "(real \<Rightarrow> real \<Rightarrow> real) \<Rightarrow> column \<Rightarrow> column \<Rightarrow> column" where
  "col_zip f c d =
     map2 (\<lambda>x y. case x of None \<Rightarrow> None
                  | Some v \<Rightarrow> (case y of None \<Rightarrow> None | Some w \<Rightarrow> Some (f v w))) c d"

definition time_col :: "(timestamp \<Rightarrow> real) \<Rightarrow> dataframe \<Rightarrow> column" where
  "time_col f df = map (\<lambda>t. Some (f t)) (recorded_at df)"

text \<open>\<open>np.clip(x, lo, hi)\<close> on one value.\<close>

definition clip :: "real \<Rightarrow> real \<Rightarrow> real \<Rightarrow> real" where
  "clip x lo hi = min (max x lo) hi"

text \<open>\<open>Series.shift(k)\<close>: the first \<open>k\<close> cells become NaN, the rest move down.\<close>

definition shift :: "nat \<Rightarrow> column \<Rightarrow> column" where
  "shift k c = replicate (min k (length c)) None @ take (length c - k) c"

text \<open>
  \<open>Series.rolling(w, min_periods=1)\<close>: the window that ends at row \<open>i\<close>, NaN cells left
  out; the mean needs one value, the standard deviation (\<open>ddof=1\<close>) two.
\<close>

definition window :: "nat \<Rightarrow> column \<Rightarrow> nat \<Rightarrow> real list" where
  "window w c i = List.map_filter id (drop (Suc i - w) (take (Suc i) c))"

definition mean :: "real list \<Rightarrow> real" where
  "mean xs = sum_list xs / real (length xs)"

definition rolling_mean :: "nat \<Rightarrow> column \<Rightarrow> column" where
  "rolling_mean w c =
     map (\<lambda>i. let xs = window w c i in if 1 \<le> length xs then Some (mean xs) else None)
       [0..<length c]"

definition sample_std :: "real list \<Rightarrow> real" where
  "sample_std xs = sqrt (sum_list (map (\<lambda>x. (x - mean xs)\<^sup>2) xs) / real (length xs - 1))"

definition rolling_std :: "nat \<Rightarrow> column \<Rightarrow> column" where
  "rolling_std w c =
     map (\<lambda>i. let xs = window w c i in if 2 \<le> length xs then Some (sample_std xs) else None)
       [0..<length c]"

text \<open>\<open>fillna(method='bfill')\<close> and \<open>fillna(method='ffill')\<close> on one column.\<close>

fun bfill :: "column \<Rightarrow> column" where
  "bfill [] = []"
| "bfill (Some v # c) = Some v # bfill c"
| "bfill (None # c) = (case bfill c of [] \<Rightarrow> [None] | y # ys \<Rightarrow> y # y # ys)"

fun ffill_from :: "cell \<Rightarrow> column \<Rightarrow> column" where
  "ffill_from prev [] = []"
| "ffill_from prev (Some v # c) = Some v # ffill_from (Some v) c"
| "ffill_from prev (None # c) = prev # ffill_from prev c"

definition ffill :: "column \<Rightarrow> column" where
  "ffill c = ffill_from None c"

text \<open>
  \<open>sort_values('recorded_at')\<close>: the rows in ascending order of the instant; every column
  is permuted alike. Rows of equal instant keep their order here (pandas leaves the order
  of ties open).
\<close>

definition cell_at :: "column \<Rightarrow> nat \<Rightarrow> cell" where
  "cell_at c i = (if i < length c then c ! i else None)"

definition sort_values :: "dataframe \<Rightarrow> dataframe" where
  "sort_values df =
     (let ts = recorded_at df;
          perm = sort_key (\<lambda>i. instant (ts ! i)) [0..<length ts]
      in \<lparr>recorded_at = map (\<lambda>i. ts ! i) perm,
          columns = map (\<lambda>(name, c). (name, map (cell_at c) perm)) (columns df)\<rparr>)"

text \<open>Decimal digits of a number, for the column names built by f-strings.\<close>

fun string_of_nat :: "nat \<Rightarrow> string" where
  "string_of_nat n =
     (if n < 10 then [''0123456789'' ! n]
      else string_of_nat (n div 10) @ [''0123456789'' ! (n mod 10)])"

declare string_of_nat.simps [simp del]

subsection \<open>advanced\_feature\_engineering.py\<close>

text \<open>\<open>df[target] = f(df[src])\<close> and \<open>df[target] = f(df[src1], df[src2])\<close>.\<close>

definition derive1 :: "dataframe \<Rightarrow> string \<Rightarrow> string \<Rightarrow> (real \<Rightarrow> cell) \<Rightarrow> error + dataframe" where
  "derive1 df target src f =
     ebind (get_col df src) (\<lambda>c. Inr (set_col df target (col_map f c)))"

definition derive2 ::
  "dataframe \<Rightarrow> string \<Rightarrow> string \<Rightarrow> string \<Rightarrow> (real \<Rightarrow> real \<Rightarrow> real) \<Rightarrow> error + dataframe" where
  "derive2 df target src1 src2 f =
     ebind (get_col df src1) (\<lambda>c.
     ebind (get_col df src2) (\<lambda>d. Inr (set_col df target (col_zip f c d))))"

text \<open>
  Lines 29--33. The time column is taken as lines 21--27 leave it. \<open>time_category\<close>
  (lines 36--39) is a categorical column and not part of the numeric frame.
\<close>

definition temporal_features :: "dataframe \<Rightarrow> error + dataframe" where
  "temporal_features df =
     (let df1 = set_col df ''hour'' (time_col (\<lambda>t. real (ts_hour t)) df);
          df2 = set_col df1 ''day_of_week'' (time_col (\<lambda>t. real (ts_dayofweek t)) df1);
          df3 = set_col df2 ''month'' (time_col (\<lambda>t. real (ts_month t)) df2)
      in derive1 df3 ''is_weekend'' ''day_of_week''
           (\<lambda>d. Some (if d = 5 \<or> d = 6 then 1 else 0)))"

text \<open>Lines 42--53: temperature range and average, and the humidity branch.\<close>

definition synthetic_humidity :: "real \<Rightarrow> real \<Rightarrow> real" where
  "synthetic_humidity max_t rain = 50 + (max_t - 25) * (- 1.5) + rain * 2"

definition humidity_features :: "dataframe \<Rightarrow> error + dataframe" where
  "humidity_features df =
     (if has_col df ''humidity'' then
        ebind (if has_col df ''pressure''
               then derive2 df ''humidity_pressure'' ''humidity'' ''pressure'' (*)
               else Inr df)
          (\<lambda>df1. derive2 df1 ''temp_humidity'' ''avg_temp'' ''humidity'' (*))
      else
        ebind (derive2 df ''humidity'' ''max_temp'' ''rainfall'' synthetic_humidity)
          (\<lambda>df1. derive1 df1 ''humidity'' ''humidity'' (\<lambda>h. Some (clip h 20 90))))"

definition meteorological_features :: "dataframe \<Rightarrow> error + dataframe" where
  "meteorological_features df =
     ebind (derive2 df ''temp_range'' ''max_temp'' ''min_temp'' (-)) (\<lambda>df1.
     ebind (derive2 df1 ''avg_temp'' ''max_temp'' ''min_temp'' (\<lambda>a b. (a + b) / 2))
       humidity_features)"

text \<open>
  Lines 56--62. \<open>np.log1p\<close> and \<open>np.sqrt\<close> give NaN outside their domains (at exactly
  \<open>-1\<close> numpy's \<open>log1p\<close> gives minus infinity, which has no cell here).
\<close>

definition log1p :: "real \<Rightarrow> cell" where
  "log1p x = (if - 1 < x then Some (ln (1 + x)) else None)"

definition np_sqrt :: "real \<Rightarrow> cell" where
  "np_sqrt x = (if 0 \<le> x then Some (sqrt x) else None)"

definition aod_features :: "dataframe \<Rightarrow> error + dataframe" where
  "aod_features df =
     ebind (derive1 df ''aod_log'' ''satellite_aod'' log1p) (\<lambda>df1.
     ebind (derive1 df1 ''aod_squared'' ''satellite_aod'' (\<lambda>x. Some (x\<^sup>2))) (\<lambda>df2.
     ebind (derive1 df2 ''aod_sqrt'' ''satellite_aod'' np_sqrt) (\<lambda>df3.
     ebind (derive2 df3 ''aod_temp_interaction'' ''satellite_aod'' ''avg_temp'' (*)) (\<lambda>df4.
     derive2 df4 ''aod_rainfall_interaction'' ''satellite_aod'' ''rainfall''
       (\<lambda>a r. a * (1 + r))))))"

text \<open>Lines 68--71: the loop over the lags.\<close>

fun lag_features :: "nat list \<Rightarrow> dataframe \<Rightarrow> error + dataframe" where
  "lag_features [] df = Inr df"
| "lag_features (lag # lags) df =
     ebind (get_col df ''satellite_aod'') (\<lambda>aod.
       let df1 = set_col df (''aod_lag_'' @ string_of_nat lag) (shift lag aod) in
       ebind (if has_col df1 ''ground_truth_pm25''
              then ebind (get_col df1 ''ground_truth_pm25'') (\<lambda>pm.
                     Inr (set_col df1 (''pm25_lag_'' @ string_of_nat lag) (shift lag pm)))
              else Inr df1)
         (lag_features lags))"

text \<open>Lines 74--76: the loop over the rolling windows.\<close>

fun rolling_features :: "nat list \<Rightarrow> dataframe \<Rightarrow> error + dataframe" where
  "rolling_features [] df = Inr df"
| "rolling_features (w # ws) df =
     ebind (get_col df ''satellite_aod'') (\<lambda>aod.
       let df1 = set_col df (''aod_rolling_'' @ string_of_nat w) (rolling_mean w aod) in
       ebind (get_col df1 ''avg_temp'') (\<lambda>t.
         rolling_features ws
           (set_col df1 (''temp_rolling_'' @ string_of_nat w) (rolling_mean w t))))"

text \<open>Lines 79--80.\<close>

definition volatility_features :: "dataframe \<Rightarrow> error + dataframe" where
  "volatility_features df =
     ebind (get_col df ''satellite_aod'') (\<lambda>aod.
       let df1 = set_col df ''aod_volatility_3h'' (rolling_std 3 aod) in
       ebind (get_col df1 ''avg_temp'') (\<lambda>t.
         Inr (set_col df1 ''temp_volatility_6h'' (rolling_std 6 t))))"

text \<open>Lines 83--89.\<close>

definition seasonal_features :: "dataframe \<Rightarrow> error + dataframe" where
  "seasonal_features df =
     (let df1 = set_col df ''day_of_year'' (time_col (\<lambda>t. real (ts_dayofyear t)) df) in
      ebind (derive1 df1 ''season_sin'' ''day_of_year'' (\<lambda>d. Some (sin (2 * pi * d / 365.25)))) (\<lambda>df2.
      ebind (derive1 df2 ''season_cos'' ''day_of_year'' (\<lambda>d. Some (cos (2 * pi * d / 365.25)))) (\<lambda>df3.
      ebind (derive1 df3 ''hour_sin'' ''hour'' (\<lambda>h. Some (sin (2 * pi * h / 24)))) (\<lambda>df4.
      derive1 df4 ''hour_cos'' ''hour'' (\<lambda>h. Some (cos (2 * pi * h / 24)))))))"

text \<open>Line 92: back-fill, then forward-fill, every column.\<close>

definition fill_remaining :: "dataframe \<Rightarrow> dataframe" where
  "fill_remaining df = df\<lparr>columns := map (\<lambda>(name, c). (name, ffill (bfill c))) (columns df)\<rparr>"

definition create_advanced_features :: "dataframe \<Rightarrow> error + dataframe" where
  "create_advanced_features df =
     ebind (temporal_features df) (\<lambda>df1.
     ebind (meteorological_features df1) (\<lambda>df2.
     ebind (aod_features df2) (\<lambda>df3.
     ebind (lag_features [1, 2, 3, 6, 12, 24] (sort_values df3)) (\<lambda>df4.
     ebind (rolling_features [3, 6, 12, 24] df4) (\<lambda>df5.
     ebind (volatility_features df5) (\<lambda>df6.
     ebind (seasonal_features df6) (\<lambda>df7.
     Inr (fill_remaining df7))))))))"

definition get_advanced_feature_list :: "string list" where
  "get_advanced_feature_list =
     [''satellite_aod'', ''min_temp'', ''max_temp'', ''rainfall''] @
     [''hour'', ''day_of_week'', ''month'', ''is_weekend'',
      ''hour_sin'', ''hour_cos'', ''season_sin'', ''season_cos'',
      ''temp_range'', ''avg_temp'', ''humidity'',
      ''aod_log'', ''aod_squared'', ''aod_sqrt'',
      ''aod_temp_interaction'', ''aod_rainfall_interaction'',
      ''aod_lag_1'', ''aod_lag_2'', ''aod_lag_3'',
      ''aod_rolling_3'', ''aod_rolling_6'', ''temp_rolling_3'',
      ''aod_volatility_3h'']"

subsection \<open>ensemble\_calibrator.py: the weights of the ensemble\<close>






section \<open>calibration\_api/app.py\<close>

text \<open>The module's globals after \<open>load_models\<close>: \<open>None\<close> for an artifact that did not load.\<close>

record registry =
  basic_model :: "model option"
  basic_scaler :: "std_scaler option"
  ensemble_model :: "EnsembleModel option"
  advanced_model :: "model option"
  advanced_scaler :: "std_scaler option"
  advanced_features :: "string list option"

text \<open>A Flask response: the JSON payload and the HTTP status.\<close>

record response =
  payload :: json
  status :: nat

definition jsonify :: "(string \<times> json) list \<Rightarrow> response" where
  "jsonify kvs = \<lparr>payload = JObj kvs, status = 200\<rparr>"

definition jsonify_error :: "string \<Rightarrow> nat \<Rightarrow> response" where
  "jsonify_error msg code = \<lparr>payload = JObj [(''error'', JStr msg)], status = code\<rparr>"

text \<open>
  The guards of the handlers, by Python truth value: \<open>None\<close> is false, a list is true
  when it is not empty, an \<open>EnsembleModel\<close> (no \<open>__bool__\<close>, no \<open>__len__\<close>) is true.
\<close>

definition basic_available :: "registry \<Rightarrow> bool" where
  "basic_available st =
     (case basic_model st of None \<Rightarrow> False
      | Some m \<Rightarrow> model_truthy m \<and>
          (case basic_scaler st of None \<Rightarrow> False | Some s \<Rightarrow> scaler_truthy s))"

definition ensemble_available :: "registry \<Rightarrow> bool" where
  "ensemble_available st = (case ensemble_model st of None \<Rightarrow> False | Some e \<Rightarrow> True)"

definition advanced_available :: "registry \<Rightarrow> bool" where
  "advanced_available st =
     (case advanced_model st of None \<Rightarrow> False
      | Some m \<Rightarrow> model_truthy m \<and>
          (case advanced_scaler st of None \<Rightarrow> False
           | Some s \<Rightarrow> scaler_truthy s \<and>
               (case advanced_features st of None \<Rightarrow> False | Some fs \<Rightarrow> fs \<noteq> [])))"

text \<open>\<open>round(x, 2)\<close>: to the nearest hundredth, a tie to the even one.\<close>

definition rint :: "real \<Rightarrow> int" where
  "rint x =
     (let f = \<lfloor>x\<rfloor>; d = x - of_int f
      in if d < 1 / 2 then f else if 1 / 2 < d then f + 1 else if even f then f else f + 1)"

definition round2 :: "real \<Rightarrow> real" where
  "round2 x = of_int (rint (x * 100)) / 100"

text \<open>\<open>a[0]\<close> on the result of a prediction.\<close>

fun first :: "real list \<Rightarrow> error + real" where
  "first [] = Inl (IndexError ''index 0 is out of bounds for axis 0 with size 0'')"
| "first (x # xs) = Inr x"

fun nd_first :: "nd \<Rightarrow> error + real" where
  "nd_first (Scalar a) = Inl (TypeError ''object is not subscriptable'')"
| "nd_first (Vec xs) = first xs"

text \<open>The four subscripts \<open>data['satellite_aod']\<close>, ..., in the order they are evaluated.\<close>

definition raw_features :: "json \<Rightarrow> error + json list" where
  "raw_features data =
     ebind (getitem data ''satellite_aod'') (\<lambda>a.
     ebind (getitem data ''min_temp'') (\<lambda>mn.
     ebind (getitem data ''max_temp'') (\<lambda>mx.
     ebind (getitem data ''rainfall'') (\<lambda>r. Inr [a, mn, mx, r]))))"

fun as_numbers :: "json list \<Rightarrow> error + real list" where
  "as_numbers [] = Inr []"
| "as_numbers (v # vs) = ebind (as_number v) (\<lambda>x. ebind (as_numbers vs) (\<lambda>xs. Inr (x # xs)))"

definition four_features :: "json \<Rightarrow> error + real list" where
  "four_features data = ebind (raw_features data) as_numbers"

text \<open>Lines 110--130. \<open>basic_prediction\<close> is the body of the \<open>try\<close> up to the prediction.\<close>

definition basic_prediction :: "registry \<Rightarrow> json \<Rightarrow> error + real" where
  "basic_prediction st data =
     ebind (four_features data) (\<lambda>features.
     ebind (case basic_scaler st of
              None \<Rightarrow> Inl (AttributeError ''NoneType object has no attribute transform'')
            | Some s \<Rightarrow> sk_transform s [features]) (\<lambda>features_scaled.
     ebind (case basic_model st of
              None \<Rightarrow> Inl (AttributeError ''NoneType object has no attribute predict'')
            | Some m \<Rightarrow> sk_predict m features_scaled) first))"

definition calibrate_with_basic_model :: "registry \<Rightarrow> json \<Rightarrow> response" where
  "calibrate_with_basic_model st data =
     (case basic_prediction st data of
        Inr calibrated_pm25 \<Rightarrow>
          jsonify [(''calibrated_pm25'', JNum (round2 calibrated_pm25)),
                   (''source'', JStr ''basic_model''),
                   (''model_version'', JStr ''1.0''),
                   (''confidence'', JStr ''standard'')]
      | Inl e \<Rightarrow> jsonify_error (''Basic model error: '' @ str_of_error e) 500)"

text \<open>Lines 132--153. The rows go to \<open>predict\<close> as a plain list: \<open>[features]\<close>.\<close>

definition ensemble_prediction :: "registry \<Rightarrow> json \<Rightarrow> error + real \<times> model_info" where
  "ensemble_prediction st data =
     ebind (four_features data) (\<lambda>features.
       case ensemble_model st of
         None \<Rightarrow> Inl (AttributeError ''NoneType object has no attribute predict'')
       | Some e \<Rightarrow>
           ebind (predict e (PyList [features])) (\<lambda>out.
           ebind (nd_first out) (\<lambda>calibrated_pm25.
           Inr (calibrated_pm25, get_model_info e))))"

definition calibrate_with_ensemble_model :: "registry \<Rightarrow> json \<Rightarrow> response" where
  "calibrate_with_ensemble_model st data =
     (case ensemble_prediction st data of
        Inr (calibrated_pm25, info) \<Rightarrow>
          jsonify [(''calibrated_pm25'', JNum (round2 calibrated_pm25)),
                   (''source'', JStr ''ensemble_model''),
                   (''model_version'', JStr ''2.0''),
                   (''confidence'', JStr ''high''),
                   (''ensemble_weights'',
                      JObj (map (\<lambda>(name, w). (name, JNum w)) (info_weights info)))]
      | Inl e \<Rightarrow> jsonify_error (''Ensemble model error: '' @ str_of_error e) 500)"

text \<open>
  Lines 155--184. \<open>single_row_frame\<close> is the one-row frame of lines 158--164, its date the
  current time; \<open>select_features\<close> is \<open>test_advanced[advanced_features].fillna(0)\<close>, row-wise.
\<close>

definition single_row_frame :: "timestamp \<Rightarrow> real list \<Rightarrow> dataframe" where
  "single_row_frame now features =
     \<lparr>recorded_at = [now],
      columns = zip [''satellite_aod'', ''min_temp'', ''max_temp'', ''rainfall'']
                  (map (\<lambda>x. [Some x]) features)\<rparr>"

fun select_columns :: "dataframe \<Rightarrow> string list \<Rightarrow> error + column list" where
  "select_columns df [] = Inr []"
| "select_columns df (name # names) =
     ebind (get_col df name) (\<lambda>c. ebind (select_columns df names) (\<lambda>cs. Inr (c # cs)))"

definition fillna0 :: "cell \<Rightarrow> real" where
  "fillna0 x = (case x of None \<Rightarrow> 0 | Some v \<Rightarrow> v)"

definition select_features :: "dataframe \<Rightarrow> string list \<Rightarrow> error + real list list" where
  "select_features df names =
     ebind (select_columns df names) (\<lambda>cs.
       Inr (map (\<lambda>i. map (\<lambda>c. fillna0 (cell_at c i)) cs) [0..<length (recorded_at df)]))"

definition advanced_prediction :: "registry \<Rightarrow> timestamp \<Rightarrow> json \<Rightarrow> error + real \<times> nat" where
  "advanced_prediction st now data =
     ebind (four_features data) (\<lambda>features.
     ebind (create_advanced_features (single_row_frame now features)) (\<lambda>test_advanced.
       case advanced_features st of
         None \<Rightarrow> Inl (KeyError ''None'')
       | Some fs \<Rightarrow>
           ebind (select_features test_advanced fs) (\<lambda>X_test.
           ebind (case advanced_scaler st of
                    None \<Rightarrow> Inl (AttributeError ''NoneType object has no attribute transform'')
                  | Some s \<Rightarrow> sk_transform s X_test) (\<lambda>X_test_scaled.
           ebind (case advanced_model st of
                    None \<Rightarrow> Inl (AttributeError ''NoneType object has no attribute predict'')
                  | Some m \<Rightarrow> sk_predict m X_test_scaled) (\<lambda>preds.
           ebind (first preds) (\<lambda>calibrated_pm25. Inr (calibrated_pm25, length fs)))))))"

definition calibrate_with_advanced_model :: "registry \<Rightarrow> timestamp \<Rightarrow> json \<Rightarrow> response" where
  "calibrate_with_advanced_model st now data =
     (case advanced_prediction st now data of
        Inr (calibrated_pm25, n) \<Rightarrow>
          jsonify [(''calibrated_pm25'', JNum (round2 calibrated_pm25)),
                   (''source'', JStr ''advanced_model''),
                   (''model_version'', JStr ''3.0''),
                   (''confidence'', JStr ''very_high''),
                   (''features_used'', JNum (real n))]
      | Inl e \<Rightarrow> jsonify_error (''Advanced model error: '' @ str_of_error e) 500)"

text \<open>Lines 94--108: the main endpoint.\<close>

definition calibrate_aod :: "registry \<Rightarrow> timestamp \<Rightarrow> json \<Rightarrow> response" where
  "calibrate_aod st now data =
     (if \<not> truthy data then jsonify_error ''No JSON data provided'' 400
      else if advanced_available st then calibrate_with_advanced_model st now data
      else if ensemble_available st then calibrate_with_ensemble_model st data
      else if basic_available st then calibrate_with_basic_model st data
      else jsonify_error ''No models available'' 500)"

text \<open>Lines 186--220: the endpoints that force a tier.\<close>

definition calibrate_basic :: "registry \<Rightarrow> json \<Rightarrow> response" where
  "calibrate_basic st data =
     (if \<not> truthy data then jsonify_error ''No JSON data provided'' 400
      else if \<not> basic_available st then jsonify_error ''Basic model not available'' 500
      else calibrate_with_basic_model st data)"

definition calibrate_ensemble :: "registry \<Rightarrow> json \<Rightarrow> response" where
  "calibrate_ensemble st data =
     (if \<not> truthy data then jsonify_error ''No JSON data provided'' 400
      else if \<not> ensemble_available st then jsonify_error ''Ensemble model not available'' 500
      else calibrate_with_ensemble_model st data)"

definition calibrate_advanced :: "registry \<Rightarrow> timestamp \<Rightarrow> json \<Rightarrow> response" where
  "calibrate_advanced st now data =
     (if \<not> truthy data then jsonify_error ''No JSON data provided'' 400
      else if \<not> advanced_available st then jsonify_error ''Advanced model not available'' 500
      else calibrate_with_advanced_model st now data)"

text \<open>Lines 222--240: what \<open>health\<close> reports.\<close>

datatype tier = Basic | Ensemble | Advanced

definition default_model :: "registry \<Rightarrow> tier option" where
  "default_model st =
     (if advanced_available st then Some Advanced
      else if ensemble_available st then Some Ensemble
      else if basic_available st then Some Basic
      else None)"

fun models_available :: "registry \<Rightarrow> tier \<Rightarrow> bool" where
  "models_available st Basic = (basic_model st \<noteq> None \<and> basic_scaler st \<noteq> None)"
| "models_available st Ensemble = (ensemble_model st \<noteq> None)"
| "models_available st Advanced =
     (advanced_model st \<noteq> None \<and> advanced_scaler st \<noteq> None \<and> advanced_features st \<noteq> None)"

section \<open>Reading a response\<close>

text \<open>
  The names under which the claims speak of a response: the tier a result names as its
  source, the fixed strings of each tier, and the tier's extra entry.
\<close>

fun tier_source :: "tier \<Rightarrow> string" where
  "tier_source Basic = ''basic_model''"
| "tier_source Ensemble = ''ensemble_model''"
| "tier_source Advanced = ''advanced_model''"

fun tier_version :: "tier \<Rightarrow> string" where
  "tier_version Basic = ''1.0''"
| "tier_version Ensemble = ''2.0''"
| "tier_version Advanced = ''3.0''"

fun tier_confidence :: "tier \<Rightarrow> string" where
  "tier_confidence Basic = ''standard''"
| "tier_confidence Ensemble = ''high''"
| "tier_confidence Advanced = ''very_high''"

fun tier_extras :: "registry \<Rightarrow> tier \<Rightarrow> (string \<times> json) list" where
  "tier_extras st Basic = []"
| "tier_extras st Ensemble =
     (case ensemble_model st of None \<Rightarrow> []
      | Some e \<Rightarrow> [(''ensemble_weights'', JObj (map (\<lambda>(name, w). (name, JNum w)) (weights e)))])"
| "tier_extras st Advanced =
     (case advanced_features st of None \<Rightarrow> []
      | Some fs \<Rightarrow> [(''features_used'', JNum (real (length fs)))])"

definition normalized_result :: "registry \<Rightarrow> tier \<Rightarrow> real \<Rightarrow> response" where
  "normalized_result st t p =
     \<lparr>payload = JObj ([(''calibrated_pm25'', JNum (round2 p)),
                       (''source'', JStr (tier_source t)),
                       (''model_version'', JStr (tier_version t)),
                       (''confidence'', JStr (tier_confidence t))] @ tier_extras st t),
      status = 200\<rparr>"

fun tier_prediction :: "registry \<Rightarrow> timestamp \<Rightarrow> json \<Rightarrow> tier \<Rightarrow> error + real" where
  "tier_prediction st now data Basic = basic_prediction st data"
| "tier_prediction st now data Ensemble = map_sum id fst (ensemble_prediction st data)"
| "tier_prediction st now data Advanced = map_sum id fst (advanced_prediction st now data)"

fun tier_handler :: "registry \<Rightarrow> timestamp \<Rightarrow> json \<Rightarrow> tier \<Rightarrow> response" where
  "tier_handler st now data Basic = calibrate_with_basic_model st data"
| "tier_handler st now data Ensemble = calibrate_with_ensemble_model st data"
| "tier_handler st now data Advanced = calibrate_with_advanced_model st now data"

fun forced_endpoint :: "registry \<Rightarrow> timestamp \<Rightarrow> json \<Rightarrow> tier \<Rightarrow> response" where
  "forced_endpoint st now data Basic = calibrate_basic st data"
| "forced_endpoint st now data Ensemble = calibrate_ensemble st data"
| "forced_endpoint st now data Advanced = calibrate_advanced st now data"

fun tier_available :: "registry \<Rightarrow> tier \<Rightarrow> bool" where
  "tier_available st Basic = basic_available st"
| "tier_available st Ensemble = ensemble_available st"
| "tier_available st Advanced = advanced_available st"

fun unavailable_message :: "tier \<Rightarrow> string" where
  "unavailable_message Basic = ''Basic model not available''"
| "unavailable_message Ensemble = ''Ensemble model not available''"
| "unavailable_message Advanced = ''Advanced model not available''"

definition source_of :: "response \<Rightarrow> json option" where
  "source_of r = (case payload r of JObj kvs \<Rightarrow> map_of kvs ''source'' | _ \<Rightarrow> None)"

definition required_fields :: "string list" where
  "required_fields = [''satellite_aod'', ''min_temp'', ''max_temp'', ''rainfall'']"

definition first_missing :: "(string \<times> json) list \<Rightarrow> string option" where
  "first_missing kvs = find (\<lambda>k. map_of kvs k = None) required_fields"

text \<open>
  The blend the combiner is meant to return for row \<open>i\<close>: the sum, over the names of the
  model map, of the learner's weight times its prediction for that row.
\<close>

definition blend :: "(string \<times> real) list \<Rightarrow> (string \<times> real list) list \<Rightarrow> string list \<Rightarrow> nat \<Rightarrow> real" where
  "blend ws ps names i =
     sum_list (map (\<lambda>name. (case map_of ws name of None \<Rightarrow> 0 | Some w \<Rightarrow> w)
                          * (case map_of ps name of None \<Rightarrow> 0 | Some p \<Rightarrow> p ! i)) names)"

section \<open>Reading a derived frame\<close>


definition derived_column :: "dataframe \<Rightarrow> string \<Rightarrow> error + column" where
  "derived_column df name = ebind (create_advanced_features df) (\<lambda>out. get_col out name)"

definition consumed_features :: "dataframe \<Rightarrow> string list \<Rightarrow> error + real list list" where
  "consumed_features df names =
     ebind (create_advanced_features df) (\<lambda>out. select_features out names)"

section \<open>Example artifacts\<close>

text \<open>Small concrete artifacts on which the theorems below are instantiated.\<close>

definition feature_model :: "nat \<Rightarrow> model" where
  "feature_model k =
     \<lparr>model_truthy = True,
      sk_predict = (\<lambda>rows. Inr (map (\<lambda>r. if k < length r then r ! k else 0) rows))\<rparr>"

definition halving_scaler :: std_scaler where
  "halving_scaler =
     \<lparr>scaler_truthy = True, sk_transform = (\<lambda>rows. Inr (map (map (\<lambda>x. x / 2)) rows))\<rparr>"

definition example_ensemble :: EnsembleModel where
  "example_ensemble =
     \<lparr>models = [(''gb'', feature_model 0), (''linear'', feature_model 1)],
      weights = [(''gb'', 2 / 3), (''linear'', 1 / 3)],
      scaler = halving_scaler,
      scores = None\<rparr>"

definition empty_registry :: registry where
  "empty_registry =
     \<lparr>basic_model = None, basic_scaler = None, ensemble_model = None,
      advanced_model = None, advanced_scaler = None, advanced_features = None\<rparr>"

definition basic_registry :: registry where
  "basic_registry =
     empty_registry\<lparr>basic_model := Some (feature_model 0), basic_scaler := Some halving_scaler\<rparr>"

definition full_registry :: registry where
  "full_registry =
     \<lparr>basic_model = Some (feature_model 0), basic_scaler = Some halving_scaler,
      ensemble_model = Some example_ensemble,
      advanced_model = Some (feature_model 0), advanced_scaler = Some halving_scaler,
      advanced_features = Some get_advanced_feature_list\<rparr>"

definition example_now :: timestamp where
  "example_now =
     \<lparr>instant = 0, ts_hour = 12, ts_dayofweek = 2, ts_month = 11, ts_dayofyear = 308\<rparr>"

definition example_body :: json where
  "example_body =
     JObj [(''satellite_aod'', JNum 300), (''min_temp'', JNum 25),
           (''max_temp'', JNum 35), (''rainfall'', JNum 0)]"



definition extra_weight_ensemble :: EnsembleModel where
  "extra_weight_ensemble =
     example_ensemble\<lparr>weights := [(''gb'', 1 / 2), (''linear'', 1 / 4), (''mlp'', 1 / 4)]\<rparr>"

definition missing_weight_ensemble :: EnsembleModel where
  "missing_weight_ensemble = example_ensemble\<lparr>weights := [(''gb'', 1)]\<rparr>"

definition ensemble_registry :: registry where
  "ensemble_registry = basic_registry\<lparr>ensemble_model := Some example_ensemble\<rparr>"



section \<open>Properties\<close>

lemma ebind_simps [simp]:
  "ebind (Inl e) f = Inl e"
  "ebind (Inr x) f = f x"
  by (simp_all add: ebind_def)

lemma available_loaded:
  "tier_available st t \<Longrightarrow> models_available st t"
  by (cases t) (auto simp: basic_available_def ensemble_available_def advanced_available_def split: option.splits)

lemma ebind_Inr_iff:
  "ebind m f = Inr y \<longleftrightarrow> (\<exists>x. m = Inr x \<and> f x = Inr y)"
  by (cases m) simp_all

lemma ensemble_prediction_Inr:
  "ensemble_prediction st data = Inr (p, info) \<Longrightarrow>
     \<exists>e. ensemble_model st = Some e \<and> info = get_model_info e"
  by (auto simp: ensemble_prediction_def ebind_Inr_iff split: option.splits)

lemma advanced_prediction_Inr:
  "advanced_prediction st now data = Inr (p, n) \<Longrightarrow>
     \<exists>fs. advanced_features st = Some fs \<and> n = length fs"
  by (auto simp: advanced_prediction_def ebind_Inr_iff split: option.splits)

lemma handler_basic:
  "(case tier_prediction st now data Basic of
      Inr p \<Rightarrow> tier_handler st now data Basic = normalized_result st Basic p
    | Inl e \<Rightarrow> status (tier_handler st now data Basic) = 500)"
  by (simp add: calibrate_with_basic_model_def normalized_result_def jsonify_def
      jsonify_error_def split: sum.splits)

lemma handler_ensemble:
  "(case tier_prediction st now data Ensemble of
      Inr p \<Rightarrow> tier_handler st now data Ensemble = normalized_result st Ensemble p
    | Inl e \<Rightarrow> status (tier_handler st now data Ensemble) = 500)"
proof (cases "ensemble_prediction st data")
  case (Inl e)
  then show ?thesis
    by (simp add: calibrate_with_ensemble_model_def jsonify_error_def)
next
  case (Inr r)
  obtain p info where r: "r = (p, info)" by (cases r)
  from Inr r obtain e where "ensemble_model st = Some e" "info = get_model_info e"
    using ensemble_prediction_Inr by blast
  with Inr r show ?thesis
    by (simp add: calibrate_with_ensemble_model_def normalized_result_def jsonify_def
        get_model_info_def)
qed

lemma handler_advanced:
  "(case tier_prediction st now data Advanced of
      Inr p \<Rightarrow> tier_handler st now data Advanced = normalized_result st Advanced p
    | Inl e \<Rightarrow> status (tier_handler st now data Advanced) = 500)"
proof (cases "advanced_prediction st now data")
  case (Inl e)
  then show ?thesis
    by (simp add: calibrate_with_advanced_model_def jsonify_error_def)
next
  case (Inr r)
  obtain p n where r: "r = (p, n)" by (cases r)
  from Inr r obtain fs where "advanced_features st = Some fs" "n = length fs"
    using advanced_prediction_Inr by blast
  with Inr r show ?thesis
    by (simp add: calibrate_with_advanced_model_def normalized_result_def jsonify_def)
qed

lemma handler_cases:
  "(case tier_prediction st now data t of
      Inr p \<Rightarrow> tier_handler st now data t = normalized_result st t p
    | Inl e \<Rightarrow> status (tier_handler st now data t) = 500)"
proof (cases t)
  case Basic
  show ?thesis unfolding Basic by (rule handler_basic)
next
  case Ensemble
  show ?thesis unfolding Ensemble by (rule handler_ensemble)
next
  case Advanced
  show ?thesis unfolding Advanced by (rule handler_advanced)
qed

lemma handler_status:
  "status (tier_handler st now data t) = 200 \<or> status (tier_handler st now data t) = 500"
  using handler_cases [of st now data t]
  by (auto simp: normalized_result_def split: sum.splits)

lemma handler_ok_source:
  "status (tier_handler st now data t) = 200 \<Longrightarrow>
     source_of (tier_handler st now data t) = Some (JStr (tier_source t))"
  using handler_cases [of st now data t]
  by (auto simp: normalized_result_def source_of_def split: sum.splits)

lemma rint_bounds: "\<bar>of_int (rint x) - x\<bar> \<le> 1 / 2"
  unfolding rint_def Let_def by (auto simp: abs_if) linarith+

lemma round2_close: "\<bar>round2 x - x\<bar> \<le> 1 / 200"
proof -
  have "\<bar>of_int (rint (x * 100)) - x * 100\<bar> \<le> 1 / 2" by (rule rint_bounds)
  then show ?thesis unfolding round2_def by (simp add: abs_if field_simps split: if_splits)
qed

lemma round2_hundredths: "round2 x * 100 = of_int (rint (x * 100))"
  by (simp add: round2_def)

text \<open>
  Claim C10. A body that parses to the empty object \<open>{}\<close> is rejected by each of the four
  calibration endpoints with the same response as a null body: the error
  \<open>No JSON data provided\<close> with status 400, whatever the registry holds. The body check
  tests the truth value of the body, so neither feature derivation nor a predictor is
  reached.
\<close>

theorem C10_empty_object_rejected:
  "calibrate_aod st now (JObj []) = jsonify_error ''No JSON data provided'' 400
   \<and> calibrate_basic st (JObj []) = jsonify_error ''No JSON data provided'' 400
   \<and> calibrate_ensemble st (JObj []) = jsonify_error ''No JSON data provided'' 400
   \<and> calibrate_advanced st now (JObj []) = jsonify_error ''No JSON data provided'' 400
   \<and> calibrate_aod st now (JObj []) = calibrate_aod st now JNull
   \<and> calibrate_basic st (JObj []) = calibrate_basic st JNull
   \<and> calibrate_ensemble st (JObj []) = calibrate_ensemble st JNull
   \<and> calibrate_advanced st now (JObj []) = calibrate_advanced st now JNull
   \<and> status (jsonify_error ''No JSON data provided'' 400) = 400"
  by (simp add: calibrate_aod_def calibrate_basic_def calibrate_ensemble_def
      calibrate_advanced_def jsonify_error_def)


lemma calibrate_dispatch:
  "truthy data \<Longrightarrow>
   calibrate_aod st now data =
     (case default_model st of
        Some t \<Rightarrow> tier_handler st now data t
      | None \<Rightarrow> jsonify_error ''No models available'' 500)"
  by (simp add: calibrate_aod_def default_model_def)

lemma default_model_Some:
  "default_model st = Some t \<Longrightarrow> tier_available st t"
  by (cases t) (auto simp: default_model_def split: if_splits)

lemma default_model_None:
  "default_model st = None \<longleftrightarrow>
     \<not> advanced_available st \<and> \<not> ensemble_available st \<and> \<not> basic_available st"
  by (simp add: default_model_def)

lemma nothing_loaded:
  "\<forall>t. \<not> models_available st t \<Longrightarrow> default_model st = None"
proof -
  assume none: "\<forall>t. \<not> models_available st t"
  have "\<not> tier_available st t" for t
    using none available_loaded by blast
  from this [of Advanced] this [of Ensemble] this [of Basic]
  show ?thesis by (simp add: default_model_def)
qed

text \<open>
  Claim C1. For a body that passes the body check (a parsed body that is not empty, that
  is, true as a Python value) and no forced tier, \<open>calibrate\<close> runs the handler of the first
  available tier in the order advanced, ensemble, basic; a tier is available only if all
  of its artifacts are loaded; a result (status 200) names that tier as its source; and
  when no tier is available, in particular when nothing is loaded, the answer is the
  error \<open>No models available\<close> with status 500.
\<close>

theorem C1_best_tier_dispatch:
  assumes "truthy data"
  shows "(advanced_available st \<longrightarrow>
            calibrate_aod st now data = calibrate_with_advanced_model st now data)
       \<and> (\<not> advanced_available st \<and> ensemble_available st \<longrightarrow>
            calibrate_aod st now data = calibrate_with_ensemble_model st data)
       \<and> (\<not> advanced_available st \<and> \<not> ensemble_available st \<and> basic_available st \<longrightarrow>
            calibrate_aod st now data = calibrate_with_basic_model st data)
       \<and> (\<not> advanced_available st \<and> \<not> ensemble_available st \<and> \<not> basic_available st \<longrightarrow>
            calibrate_aod st now data = jsonify_error ''No models available'' 500)
       \<and> (\<forall>t. tier_available st t \<longrightarrow> models_available st t)
       \<and> ((\<forall>t. \<not> models_available st t) \<longrightarrow>
            calibrate_aod st now data = jsonify_error ''No models available'' 500)
       \<and> (status (calibrate_aod st now data) = 200 \<longrightarrow>
            (\<exists>t. default_model st = Some t
               \<and> source_of (calibrate_aod st now data) = Some (JStr (tier_source t))))"
proof -
  have order: "(advanced_available st \<longrightarrow>
            calibrate_aod st now data = calibrate_with_advanced_model st now data)
       \<and> (\<not> advanced_available st \<and> ensemble_available st \<longrightarrow>
            calibrate_aod st now data = calibrate_with_ensemble_model st data)
       \<and> (\<not> advanced_available st \<and> \<not> ensemble_available st \<and> basic_available st \<longrightarrow>
            calibrate_aod st now data = calibrate_with_basic_model st data)
       \<and> (\<not> advanced_available st \<and> \<not> ensemble_available st \<and> \<not> basic_available st \<longrightarrow>
            calibrate_aod st now data = jsonify_error ''No models available'' 500)"
    using assms by (simp add: calibrate_aod_def)
  have loaded: "\<forall>t. tier_available st t \<longrightarrow> models_available st t"
    using available_loaded by blast
  have none: "(\<forall>t. \<not> models_available st t) \<longrightarrow>
            calibrate_aod st now data = jsonify_error ''No models available'' 500"
    using assms nothing_loaded [of st] by (simp add: calibrate_dispatch)
  have src: "status (calibrate_aod st now data) = 200 \<longrightarrow>
            (\<exists>t. default_model st = Some t
               \<and> source_of (calibrate_aod st now data) = Some (JStr (tier_source t)))"
  proof
    assume ok: "status (calibrate_aod st now data) = 200"
    show "\<exists>t. default_model st = Some t
               \<and> source_of (calibrate_aod st now data) = Some (JStr (tier_source t))"
    proof (cases "default_model st")
      case None
      with assms ok show ?thesis
        by (simp add: calibrate_dispatch jsonify_error_def)
    next
      case (Some t)
      with assms ok have "status (tier_handler st now data t) = 200"
        by (simp add: calibrate_dispatch)
      then have "source_of (tier_handler st now data t) = Some (JStr (tier_source t))"
        by (rule handler_ok_source)
      with assms Some show ?thesis by (simp add: calibrate_dispatch)
    qed
  qed
  from order loaded none src show ?thesis by blast
qed

theorem C1_best_tier_dispatch_witness:
  "truthy example_body
   \<and> advanced_available full_registry
   \<and> calibrate_aod full_registry example_now example_body
       = calibrate_with_advanced_model full_registry example_now example_body
   \<and> \<not> advanced_available ensemble_registry \<and> ensemble_available ensemble_registry
   \<and> calibrate_aod ensemble_registry example_now example_body
       = calibrate_with_ensemble_model ensemble_registry example_body
   \<and> \<not> advanced_available basic_registry \<and> \<not> ensemble_available basic_registry
   \<and> basic_available basic_registry
   \<and> calibrate_aod basic_registry example_now example_body
       = calibrate_with_basic_model basic_registry example_body
   \<and> status (calibrate_aod basic_registry example_now example_body) = 200
   \<and> source_of (calibrate_aod basic_registry example_now example_body) = Some (JStr ''basic_model'')
   \<and> (\<forall>t. \<not> models_available empty_registry t)
   \<and> \<not> advanced_available empty_registry \<and> \<not> ensemble_available empty_registry
   \<and> \<not> basic_available empty_registry
   \<and> calibrate_aod empty_registry example_now example_body
       = jsonify_error ''No models available'' 500"
proof -
  have t: "truthy example_body" by (simp add: example_body_def)
  have a: "advanced_available full_registry"
    by (simp add: advanced_available_def full_registry_def feature_model_def
        halving_scaler_def get_advanced_feature_list_def)
  have en: "\<not> advanced_available ensemble_registry \<and> ensemble_available ensemble_registry"
    by (simp add: advanced_available_def ensemble_available_def ensemble_registry_def
        basic_registry_def empty_registry_def)
  have b: "\<not> advanced_available basic_registry \<and> \<not> ensemble_available basic_registry
           \<and> basic_available basic_registry"
    by (simp add: advanced_available_def ensemble_available_def basic_available_def
        basic_registry_def empty_registry_def feature_model_def halving_scaler_def)
  have e: "\<forall>t. \<not> models_available empty_registry t"
  proof
    fix t show "\<not> models_available empty_registry t"
      by (cases t) (simp_all add: empty_registry_def)
  qed
  have e': "\<not> advanced_available empty_registry \<and> \<not> ensemble_available empty_registry
            \<and> \<not> basic_available empty_registry"
    by (simp add: advanced_available_def ensemble_available_def basic_available_def
        empty_registry_def)
  have s: "status (calibrate_aod basic_registry example_now example_body) = 200"
    by (simp add: calibrate_aod_def example_body_def advanced_available_def ensemble_available_def basic_available_def
        basic_registry_def empty_registry_def feature_model_def halving_scaler_def
        calibrate_with_basic_model_def basic_prediction_def four_features_def raw_features_def jsonify_def)
  have d: "default_model basic_registry = Some Basic"
    using b by (simp add: default_model_def)
  from C1_best_tier_dispatch [OF t, of full_registry example_now] a
  have 1: "calibrate_aod full_registry example_now example_body
       = calibrate_with_advanced_model full_registry example_now example_body" by blast
  from C1_best_tier_dispatch [OF t, of ensemble_registry example_now] en
  have 5: "calibrate_aod ensemble_registry example_now example_body
       = calibrate_with_ensemble_model ensemble_registry example_body" by blast
  from C1_best_tier_dispatch [OF t, of basic_registry example_now] b s d
  have 2: "calibrate_aod basic_registry example_now example_body
       = calibrate_with_basic_model basic_registry example_body"
    and 3: "source_of (calibrate_aod basic_registry example_now example_body) = Some (JStr ''basic_model'')"
    by auto
  from C1_best_tier_dispatch [OF t, of empty_registry example_now] e
  have 4: "calibrate_aod empty_registry example_now example_body
       = jsonify_error ''No models available'' 500" by blast
  from t a en b e e' s 1 2 3 4 5 show ?thesis by blast
qed

subsection \<open>The stages of the feature deriver\<close>

lemma cols_set_col:
  "map_of (columns (set_col df n c)) = (map_of (columns df))(n \<mapsto> c)"
  by (simp add: set_col_def update_conv')

lemma recorded_at_set_col: "recorded_at (set_col df n c) = recorded_at df"
  by (simp add: set_col_def)

lemma get_col_Inr_iff: "get_col df n = Inr c \<longleftrightarrow> map_of (columns df) n = Some c"
  by (simp add: get_col_def split: option.splits)

lemma derive1_Inr_iff:
  "derive1 df t s f = Inr df' \<longleftrightarrow>
     (\<exists>c. map_of (columns df) s = Some c \<and> df' = set_col df t (col_map f c))"
  by (auto simp: derive1_def ebind_Inr_iff get_col_Inr_iff)


lemma lag_names:
  "string_of_nat (Suc 0) = ''1''"
  "string_of_nat 1 = ''1''" "string_of_nat 2 = ''2''" "string_of_nat 3 = ''3''"
  "string_of_nat 6 = ''6''" "string_of_nat 12 = ''12''" "string_of_nat 24 = ''24''"
  by (simp_all add: string_of_nat.simps)


lemma temporal_features_effect:
  assumes "temporal_features df = Inr df'"
  shows "recorded_at df' = recorded_at df"
    and "map_of (columns df') =
           (map_of (columns df))
             (''hour'' \<mapsto> time_col (\<lambda>t. real (ts_hour t)) df,
              ''day_of_week'' \<mapsto> time_col (\<lambda>t. real (ts_dayofweek t)) df,
              ''month'' \<mapsto> time_col (\<lambda>t. real (ts_month t)) df,
              ''is_weekend'' \<mapsto>
                 col_map (\<lambda>d. Some (if d = 5 \<or> d = 6 then 1 else 0))
                   (time_col (\<lambda>t. real (ts_dayofweek t)) df))"
  using assms
  by (auto simp: temporal_features_def Let_def derive1_Inr_iff cols_set_col recorded_at_set_col
      time_col_def)

lemma temporal_features_total: "\<exists>df'. temporal_features df = Inr df'"
  by (simp add: temporal_features_def Let_def derive1_Inr_iff cols_set_col)













lemma map_of_map_snd:
  "map_of (map (\<lambda>(n, c). (n, f c)) xs) k = map_option f (map_of xs k)"
  by (induction xs) auto

lemma cols_sort_values:
  "map_of (columns (sort_values df)) n =
     map_option (\<lambda>c. map (cell_at c)
        (sort_key (\<lambda>i. instant (recorded_at df ! i)) [0..<length (recorded_at df)]))
       (map_of (columns df) n)"
  by (simp add: sort_values_def Let_def map_of_map_snd)

lemma recorded_at_sort_values:
  "recorded_at (sort_values df) =
     map (\<lambda>i. recorded_at df ! i)
       (sort_key (\<lambda>i. instant (recorded_at df ! i)) [0..<length (recorded_at df)])"
  by (simp add: sort_values_def Let_def)




lemma lag_features_effect:
  assumes "map_of (columns df) ''satellite_aod'' = Some aod"
    and "map_of (columns df) ''ground_truth_pm25'' = None"
  shows "\<exists>df'. lag_features [1, 2, 3, 6, 12, 24] df = Inr df'
           \<and> recorded_at df' = recorded_at df
           \<and> map_of (columns df') =
               (map_of (columns df))
                 (''aod_lag_1'' \<mapsto> shift 1 aod, ''aod_lag_2'' \<mapsto> shift 2 aod,
                  ''aod_lag_3'' \<mapsto> shift 3 aod, ''aod_lag_6'' \<mapsto> shift 6 aod,
                  ''aod_lag_12'' \<mapsto> shift 12 aod, ''aod_lag_24'' \<mapsto> shift 24 aod)"
  using assms
  by (simp add: get_col_def has_col_def cols_set_col recorded_at_set_col lag_names Let_def)



lemma rolling_features_effect:
  assumes "map_of (columns df) ''satellite_aod'' = Some aod"
    and "map_of (columns df) ''avg_temp'' = Some t"
  shows "\<exists>df'. rolling_features [3, 6, 12, 24] df = Inr df'
           \<and> recorded_at df' = recorded_at df
           \<and> map_of (columns df') =
               (map_of (columns df))
                 (''aod_rolling_3'' \<mapsto> rolling_mean 3 aod, ''temp_rolling_3'' \<mapsto> rolling_mean 3 t,
                  ''aod_rolling_6'' \<mapsto> rolling_mean 6 aod, ''temp_rolling_6'' \<mapsto> rolling_mean 6 t,
                  ''aod_rolling_12'' \<mapsto> rolling_mean 12 aod, ''temp_rolling_12'' \<mapsto> rolling_mean 12 t,
                  ''aod_rolling_24'' \<mapsto> rolling_mean 24 aod, ''temp_rolling_24'' \<mapsto> rolling_mean 24 t)"
  using assms
  by (simp add: get_col_def cols_set_col recorded_at_set_col lag_names Let_def)



lemma volatility_features_effect:
  assumes "map_of (columns df) ''satellite_aod'' = Some aod"
    and "map_of (columns df) ''avg_temp'' = Some t"
  shows "\<exists>df'. volatility_features df = Inr df'
           \<and> recorded_at df' = recorded_at df
           \<and> map_of (columns df') =
               (map_of (columns df))
                 (''aod_volatility_3h'' \<mapsto> rolling_std 3 aod,
                  ''temp_volatility_6h'' \<mapsto> rolling_std 6 t)"
  using assms
  by (simp add: volatility_features_def get_col_def cols_set_col recorded_at_set_col Let_def)





lemma cols_fill_remaining:
  "map_of (columns (fill_remaining df)) n = map_option (\<lambda>c. ffill (bfill c)) (map_of (columns df) n)"
  by (simp add: fill_remaining_def map_of_map_snd)

lemma recorded_at_fill_remaining: "recorded_at (fill_remaining df) = recorded_at df"
  by (simp add: fill_remaining_def)

lemma meteorological_features_full:
  assumes "map_of (columns df) ''max_temp'' = Some mx"
    and "map_of (columns df) ''min_temp'' = Some mn"
    and "map_of (columns df) ''rainfall'' = Some rf"
    and "map_of (columns df) ''humidity'' = None"
  shows "\<exists>df'. meteorological_features df = Inr df'
           \<and> recorded_at df' = recorded_at df
           \<and> map_of (columns df') =
               (map_of (columns df))
                 (''temp_range'' \<mapsto> col_zip (-) mx mn,
                  ''avg_temp'' \<mapsto> col_zip (\<lambda>a b. (a + b) / 2) mx mn,
                  ''humidity'' \<mapsto>
                     col_map (\<lambda>h. Some (clip h 20 90)) (col_zip synthetic_humidity mx rf))"
  using assms
  by (simp add: meteorological_features_def humidity_features_def has_col_def derive1_def
      derive2_def get_col_def cols_set_col recorded_at_set_col)

lemma aod_features_full:
  assumes "map_of (columns df) ''satellite_aod'' = Some aod"
    and "map_of (columns df) ''avg_temp'' = Some t"
    and "map_of (columns df) ''rainfall'' = Some rf"
  shows "\<exists>df'. aod_features df = Inr df'
           \<and> recorded_at df' = recorded_at df
           \<and> map_of (columns df') =
               (map_of (columns df))
                 (''aod_log'' \<mapsto> col_map log1p aod,
                  ''aod_squared'' \<mapsto> col_map (\<lambda>x. Some (x\<^sup>2)) aod,
                  ''aod_sqrt'' \<mapsto> col_map np_sqrt aod,
                  ''aod_temp_interaction'' \<mapsto> col_zip (*) aod t,
                  ''aod_rainfall_interaction'' \<mapsto> col_zip (\<lambda>a r. a * (1 + r)) aod rf)"
  using assms
  by (simp add: aod_features_def derive1_def derive2_def get_col_def cols_set_col
      recorded_at_set_col)

lemma seasonal_features_full:
  assumes "map_of (columns df) ''hour'' = Some h"
  shows "\<exists>df'. seasonal_features df = Inr df'
           \<and> recorded_at df' = recorded_at df
           \<and> map_of (columns df') =
               (map_of (columns df))
                 (''day_of_year'' \<mapsto> time_col (\<lambda>t. real (ts_dayofyear t)) df,
                  ''season_sin'' \<mapsto>
                     col_map (\<lambda>d. Some (sin (2 * pi * d / 365.25)))
                       (time_col (\<lambda>t. real (ts_dayofyear t)) df),
                  ''season_cos'' \<mapsto>
                     col_map (\<lambda>d. Some (cos (2 * pi * d / 365.25)))
                       (time_col (\<lambda>t. real (ts_dayofyear t)) df),
                  ''hour_sin'' \<mapsto> col_map (\<lambda>h. Some (sin (2 * pi * h / 24))) h,
                  ''hour_cos'' \<mapsto> col_map (\<lambda>h. Some (cos (2 * pi * h / 24))) h)"
  using assms
  by (simp add: seasonal_features_def derive1_def get_col_def cols_set_col
      recorded_at_set_col Let_def)

subsection \<open>One observation without history\<close>

lemma single_cells:
  "0 < k \<Longrightarrow> shift k [x] = [None]"
  "0 < w \<Longrightarrow> rolling_mean w [Some v] = [Some v]"
  "rolling_std w [x] = [None]"
  "bfill [x] = [x]"
  "ffill [x] = [x]"
  "col_zip f [Some u] [Some v] = [Some (f u v)]"
  "col_map g [Some v] = [g v]"
  "cell_at [x] 0 = x"
  subgoal by (cases k) (simp_all add: shift_def)
  subgoal by (cases w) (simp_all add: rolling_mean_def window_def List.map_filter_def mean_def)
  subgoal by (cases x; cases w) (simp_all add: rolling_std_def window_def List.map_filter_def)
  subgoal by (cases x) simp_all
  subgoal by (cases x) (simp_all add: ffill_def)
  subgoal by (simp add: col_zip_def)
  subgoal by (simp add: col_map_def)
  subgoal by (simp add: cell_at_def)
  done

lemma single_row_cols:
  "map_of (columns (single_row_frame now [a, mn, mx, r])) =
     [''rainfall'' \<mapsto> [Some r], ''max_temp'' \<mapsto> [Some mx],
      ''min_temp'' \<mapsto> [Some mn], ''satellite_aod'' \<mapsto> [Some a]]"
  "recorded_at (single_row_frame now [a, mn, mx, r]) = [now]"
  by (simp_all add: single_row_frame_def)

lemma single_row_pipeline:
  "\<exists>out. create_advanced_features (single_row_frame now [a, mn, mx, r]) = Inr out
      \<and> recorded_at out = [now]
      \<and> map_of (columns out) ''satellite_aod'' = Some [Some a]
      \<and> map_of (columns out) ''min_temp'' = Some [Some mn]
      \<and> map_of (columns out) ''max_temp'' = Some [Some mx]
      \<and> map_of (columns out) ''rainfall'' = Some [Some r]
      \<and> map_of (columns out) ''hour'' = Some [Some (real (ts_hour now))]
      \<and> map_of (columns out) ''day_of_week'' = Some [Some (real (ts_dayofweek now))]
      \<and> map_of (columns out) ''month'' = Some [Some (real (ts_month now))]
      \<and> map_of (columns out) ''is_weekend'' =
            Some [Some (if ts_dayofweek now = 5 \<or> ts_dayofweek now = 6 then 1 else 0)]
      \<and> map_of (columns out) ''hour_sin'' = Some [Some (sin (2 * pi * real (ts_hour now) / 24))]
      \<and> map_of (columns out) ''hour_cos'' = Some [Some (cos (2 * pi * real (ts_hour now) / 24))]
      \<and> map_of (columns out) ''season_sin'' =
            Some [Some (sin (2 * pi * real (ts_dayofyear now) / 365.25))]
      \<and> map_of (columns out) ''season_cos'' =
            Some [Some (cos (2 * pi * real (ts_dayofyear now) / 365.25))]
      \<and> map_of (columns out) ''temp_range'' = Some [Some (mx - mn)]
      \<and> map_of (columns out) ''avg_temp'' = Some [Some ((mx + mn) / 2)]
      \<and> map_of (columns out) ''humidity'' = Some [Some (clip (synthetic_humidity mx r) 20 90)]
      \<and> map_of (columns out) ''aod_log'' = Some [log1p a]
      \<and> map_of (columns out) ''aod_squared'' = Some [Some (a\<^sup>2)]
      \<and> map_of (columns out) ''aod_sqrt'' = Some [np_sqrt a]
      \<and> map_of (columns out) ''aod_temp_interaction'' = Some [Some (a * ((mx + mn) / 2))]
      \<and> map_of (columns out) ''aod_rainfall_interaction'' = Some [Some (a * (1 + r))]
      \<and> map_of (columns out) ''aod_lag_1'' = Some [None]
      \<and> map_of (columns out) ''aod_lag_2'' = Some [None]
      \<and> map_of (columns out) ''aod_lag_3'' = Some [None]
      \<and> map_of (columns out) ''aod_lag_6'' = Some [None]
      \<and> map_of (columns out) ''aod_lag_12'' = Some [None]
      \<and> map_of (columns out) ''aod_lag_24'' = Some [None]
      \<and> map_of (columns out) ''aod_rolling_3'' = Some [Some a]
      \<and> map_of (columns out) ''aod_rolling_6'' = Some [Some a]
      \<and> map_of (columns out) ''aod_rolling_12'' = Some [Some a]
      \<and> map_of (columns out) ''aod_rolling_24'' = Some [Some a]
      \<and> map_of (columns out) ''temp_rolling_3'' = Some [Some ((mx + mn) / 2)]
      \<and> map_of (columns out) ''temp_rolling_6'' = Some [Some ((mx + mn) / 2)]
      \<and> map_of (columns out) ''temp_rolling_12'' = Some [Some ((mx + mn) / 2)]
      \<and> map_of (columns out) ''temp_rolling_24'' = Some [Some ((mx + mn) / 2)]
      \<and> map_of (columns out) ''aod_volatility_3h'' = Some [None]
      \<and> map_of (columns out) ''temp_volatility_6h'' = Some [None]"
proof -
  define df0 where "df0 = single_row_frame now [a, mn, mx, r]"
  note c0 = single_row_cols [of now a mn mx r, folded df0_def]
  obtain df1 where s1: "temporal_features df0 = Inr df1"
    using temporal_features_total by blast
  note e1 = temporal_features_effect [OF s1]
  have r1: "recorded_at df1 = [now]" using e1(1) c0(2) by simp
  have m1: "map_of (columns df1) =
      (map_of (columns df0))
        (''hour'' \<mapsto> [Some (real (ts_hour now))],
         ''day_of_week'' \<mapsto> [Some (real (ts_dayofweek now))],
         ''month'' \<mapsto> [Some (real (ts_month now))],
         ''is_weekend'' \<mapsto> [Some (if ts_dayofweek now = 5 \<or> ts_dayofweek now = 6 then 1 else 0)])"
    by (simp add: e1(2) time_col_def c0(2) single_cells)
  have "map_of (columns df1) ''max_temp'' = Some [Some mx]"
    "map_of (columns df1) ''min_temp'' = Some [Some mn]"
    "map_of (columns df1) ''rainfall'' = Some [Some r]"
    "map_of (columns df1) ''humidity'' = None"
    by (simp_all add: m1 c0(1))
  from meteorological_features_full [OF this] obtain df2 where
    s2: "meteorological_features df1 = Inr df2" and
    r2: "recorded_at df2 = recorded_at df1" and
    m2: "map_of (columns df2) =
               (map_of (columns df1))
                 (''temp_range'' \<mapsto> [Some (mx - mn)],
                  ''avg_temp'' \<mapsto> [Some ((mx + mn) / 2)],
                  ''humidity'' \<mapsto> [Some (clip (synthetic_humidity mx r) 20 90)])"
    by (auto simp: single_cells)
  have "map_of (columns df2) ''satellite_aod'' = Some [Some a]"
    "map_of (columns df2) ''avg_temp'' = Some [Some ((mx + mn) / 2)]"
    "map_of (columns df2) ''rainfall'' = Some [Some r]"
    by (simp_all add: m2 m1 c0(1))
  from aod_features_full [OF this] obtain df3 where
    s3: "aod_features df2 = Inr df3" and
    r3: "recorded_at df3 = recorded_at df2" and
    m3: "map_of (columns df3) =
               (map_of (columns df2))
                 (''aod_log'' \<mapsto> [log1p a],
                  ''aod_squared'' \<mapsto> [Some (a\<^sup>2)],
                  ''aod_sqrt'' \<mapsto> [np_sqrt a],
                  ''aod_temp_interaction'' \<mapsto> [Some (a * ((mx + mn) / 2))],
                  ''aod_rainfall_interaction'' \<mapsto> [Some (a * (1 + r))])"
    by (auto simp: single_cells)
  define dfs where "dfs = sort_values df3"
  have r3': "recorded_at df3 = [now]" by (simp add: r3 r2 r1)
  have rs: "recorded_at dfs = [now]"
    by (simp add: dfs_def recorded_at_sort_values r3')
  have ms: "map_of (columns dfs) n = map_option (\<lambda>c. [cell_at c 0]) (map_of (columns df3) n)" for n
    by (simp add: dfs_def cols_sort_values r3')
  have "map_of (columns dfs) ''satellite_aod'' = Some [Some a]"
    "map_of (columns dfs) ''ground_truth_pm25'' = None"
    by (simp_all add: ms m3 m2 m1 c0(1) single_cells)
  from lag_features_effect [OF this] obtain df4 where
    s4: "lag_features [1, 2, 3, 6, 12, 24] dfs = Inr df4" and
    r4: "recorded_at df4 = recorded_at dfs" and
    m4: "map_of (columns df4) =
               (map_of (columns dfs))
                 (''aod_lag_1'' \<mapsto> [None], ''aod_lag_2'' \<mapsto> [None],
                  ''aod_lag_3'' \<mapsto> [None], ''aod_lag_6'' \<mapsto> [None],
                  ''aod_lag_12'' \<mapsto> [None], ''aod_lag_24'' \<mapsto> [None])"
    by (auto simp: single_cells)
  have "map_of (columns df4) ''satellite_aod'' = Some [Some a]"
    "map_of (columns df4) ''avg_temp'' = Some [Some ((mx + mn) / 2)]"
    by (simp_all add: m4 ms m3 m2 m1 c0(1) single_cells)
  from rolling_features_effect [OF this] obtain df5 where
    s5: "rolling_features [3, 6, 12, 24] df4 = Inr df5" and
    r5: "recorded_at df5 = recorded_at df4" and
    m5: "map_of (columns df5) =
               (map_of (columns df4))
                 (''aod_rolling_3'' \<mapsto> [Some a],
                  ''temp_rolling_3'' \<mapsto> [Some ((mx + mn) / 2)],
                  ''aod_rolling_6'' \<mapsto> [Some a],
                  ''temp_rolling_6'' \<mapsto> [Some ((mx + mn) / 2)],
                  ''aod_rolling_12'' \<mapsto> [Some a],
                  ''temp_rolling_12'' \<mapsto> [Some ((mx + mn) / 2)],
                  ''aod_rolling_24'' \<mapsto> [Some a],
                  ''temp_rolling_24'' \<mapsto> [Some ((mx + mn) / 2)])"
    by (auto simp: single_cells)
  have "map_of (columns df5) ''satellite_aod'' = Some [Some a]"
    "map_of (columns df5) ''avg_temp'' = Some [Some ((mx + mn) / 2)]"
    by (simp_all add: m5 m4 ms m3 m2 m1 c0(1) single_cells)
  from volatility_features_effect [OF this] obtain df6 where
    s6: "volatility_features df5 = Inr df6" and
    r6: "recorded_at df6 = recorded_at df5" and
    m6: "map_of (columns df6) =
               (map_of (columns df5))
                 (''aod_volatility_3h'' \<mapsto> [None], ''temp_volatility_6h'' \<mapsto> [None])"
    by (auto simp: single_cells)
  have r6': "recorded_at df6 = [now]" by (simp add: r6 r5 r4 rs)
  have "map_of (columns df6) ''hour'' = Some [Some (real (ts_hour now))]"
    by (simp add: m6 m5 m4 ms m3 m2 m1 c0(1) single_cells)
  from seasonal_features_full [OF this] obtain df7 where
    s7: "seasonal_features df6 = Inr df7" and
    r7: "recorded_at df7 = recorded_at df6" and
    m7: "map_of (columns df7) =
               (map_of (columns df6))
                 (''day_of_year'' \<mapsto> time_col (\<lambda>t. real (ts_dayofyear t)) df6,
                  ''season_sin'' \<mapsto>
                     col_map (\<lambda>d. Some (sin (2 * pi * d / 365.25)))
                       (time_col (\<lambda>t. real (ts_dayofyear t)) df6),
                  ''season_cos'' \<mapsto>
                     col_map (\<lambda>d. Some (cos (2 * pi * d / 365.25)))
                       (time_col (\<lambda>t. real (ts_dayofyear t)) df6),
                  ''hour_sin'' \<mapsto>
                     col_map (\<lambda>h. Some (sin (2 * pi * h / 24))) [Some (real (ts_hour now))],
                  ''hour_cos'' \<mapsto>
                     col_map (\<lambda>h. Some (cos (2 * pi * h / 24))) [Some (real (ts_hour now))])"
    by blast
  define out where "out = fill_remaining df7"
  have run: "create_advanced_features df0 = Inr out"
    by (simp only: create_advanced_features_def s1 s2 s3 s4 s5 s6 s7 ebind_simps
        dfs_def [symmetric] out_def)
  have rout: "recorded_at out = [now]"
    by (simp add: out_def recorded_at_fill_remaining r7 r6')
  have mo: "map_of (columns out) n = map_option (\<lambda>c. ffill (bfill c)) (map_of (columns df7) n)" for n
    by (simp add: out_def cols_fill_remaining)
  show ?thesis
    apply (rule exI [of _ out])
    unfolding df0_def [symmetric]
    using run rout
    by (simp add: mo m7 m6 m5 m4 ms m3 m2 m1 c0(1) single_cells time_col_def r6' mult.commute)
qed

subsection \<open>The humidity column\<close>












subsection \<open>Claims about the feature deriver\<close>

lemma get_col_Some: "map_of (columns df) n = Some c \<Longrightarrow> get_col df n = Inr c"
  by (simp add: get_col_def)


lemma single_row_consumed:
  "consumed_features (single_row_frame now [a, mn, mx, r]) get_advanced_feature_list
       = Inr [[a, mn, mx, r,
               real (ts_hour now), real (ts_dayofweek now), real (ts_month now),
               (if ts_dayofweek now = 5 \<or> ts_dayofweek now = 6 then 1 else 0),
               sin (2 * pi * real (ts_hour now) / 24), cos (2 * pi * real (ts_hour now) / 24),
               sin (2 * pi * real (ts_dayofyear now) / 365.25),
               cos (2 * pi * real (ts_dayofyear now) / 365.25),
               mx - mn, (mx + mn) / 2, clip (synthetic_humidity mx r) 20 90,
               fillna0 (log1p a), a\<^sup>2, fillna0 (np_sqrt a),
               a * ((mx + mn) / 2), a * (1 + r),
               0, 0, 0, a, a, (mx + mn) / 2, 0]]"
proof -
  from single_row_pipeline [of now a mn mx r] obtain out where
    run: "create_advanced_features (single_row_frame now [a, mn, mx, r]) = Inr out" and
    cols: "recorded_at out = [now]"
      "map_of (columns out) ''satellite_aod'' = Some [Some a]"
      "map_of (columns out) ''min_temp'' = Some [Some mn]"
      "map_of (columns out) ''max_temp'' = Some [Some mx]"
      "map_of (columns out) ''rainfall'' = Some [Some r]"
      "map_of (columns out) ''hour'' = Some [Some (real (ts_hour now))]"
      "map_of (columns out) ''day_of_week'' = Some [Some (real (ts_dayofweek now))]"
      "map_of (columns out) ''month'' = Some [Some (real (ts_month now))]"
      "map_of (columns out) ''is_weekend'' =
            Some [Some (if ts_dayofweek now = 5 \<or> ts_dayofweek now = 6 then 1 else 0)]"
      "map_of (columns out) ''hour_sin'' = Some [Some (sin (2 * pi * real (ts_hour now) / 24))]"
      "map_of (columns out) ''hour_cos'' = Some [Some (cos (2 * pi * real (ts_hour now) / 24))]"
      "map_of (columns out) ''season_sin'' =
            Some [Some (sin (2 * pi * real (ts_dayofyear now) / 365.25))]"
      "map_of (columns out) ''season_cos'' =
            Some [Some (cos (2 * pi * real (ts_dayofyear now) / 365.25))]"
      "map_of (columns out) ''temp_range'' = Some [Some (mx - mn)]"
      "map_of (columns out) ''avg_temp'' = Some [Some ((mx + mn) / 2)]"
      "map_of (columns out) ''humidity'' = Some [Some (clip (synthetic_humidity mx r) 20 90)]"
      "map_of (columns out) ''aod_log'' = Some [log1p a]"
      "map_of (columns out) ''aod_squared'' = Some [Some (a\<^sup>2)]"
      "map_of (columns out) ''aod_sqrt'' = Some [np_sqrt a]"
      "map_of (columns out) ''aod_temp_interaction'' = Some [Some (a * ((mx + mn) / 2))]"
      "map_of (columns out) ''aod_rainfall_interaction'' = Some [Some (a * (1 + r))]"
      "map_of (columns out) ''aod_lag_1'' = Some [None]"
      "map_of (columns out) ''aod_lag_2'' = Some [None]"
      "map_of (columns out) ''aod_lag_3'' = Some [None]"
      "map_of (columns out) ''aod_rolling_3'' = Some [Some a]"
      "map_of (columns out) ''aod_rolling_6'' = Some [Some a]"
      "map_of (columns out) ''temp_rolling_3'' = Some [Some ((mx + mn) / 2)]"
      "map_of (columns out) ''aod_volatility_3h'' = Some [None]"
    by blast
  have cells: "fillna0 None = 0" "fillna0 (Some v) = v" for v
    by (simp_all add: fillna0_def)
  show ?thesis
    by (simp add: consumed_features_def run get_col_Some cols select_features_def
        single_cells cells get_advanced_feature_list_def)
qed

lemma example_advanced_prediction:
  "advanced_prediction full_registry example_now example_body = Inr (150, 27)"
proof -
  from single_row_pipeline [of example_now 300 25 35 0] obtain out where
    run: "create_advanced_features (single_row_frame example_now [300, 25, 35, 0]) = Inr out"
    by blast
  from single_row_consumed [of example_now 300 25 35 0] run
  have "\<exists>rest. select_features out get_advanced_feature_list = Inr [300 # rest]"
    by (simp add: consumed_features_def)
  then obtain rest where "select_features out get_advanced_feature_list = Inr [300 # rest]"
    by blast
  then show ?thesis
    by (simp add: advanced_prediction_def four_features_def raw_features_def example_body_def
        full_registry_def run feature_model_def halving_scaler_def get_advanced_feature_list_def)
qed

text \<open>
  Claim C4, as amended. For a frame of one observation (the frame the advanced tier builds
  from a request), the deriver succeeds; every rolling mean equals the current value (the
  AOD, or the average temperature); every lag column and both rolling standard deviations
  are undefined (NaN) in the derived frame, and the dispatcher consumes them as 0 after
  its zero-fill. For the feature list of the trainer the dispatcher consumes one complete
  row, with no failure.
\<close>

theorem C4_single_observation:
  "list_all (\<lambda>k. derived_column (single_row_frame now [a, mn, mx, r])
                     (''aod_lag_'' @ string_of_nat k) = Inr [None]) [1, 2, 3, 6, 12, 24]
   \<and> list_all (\<lambda>w. derived_column (single_row_frame now [a, mn, mx, r])
                     (''aod_rolling_'' @ string_of_nat w) = Inr [Some a]
                 \<and> derived_column (single_row_frame now [a, mn, mx, r])
                     (''temp_rolling_'' @ string_of_nat w) = Inr [Some ((mx + mn) / 2)])
        [3, 6, 12, 24]
   \<and> derived_column (single_row_frame now [a, mn, mx, r]) ''aod_volatility_3h'' = Inr [None]
   \<and> derived_column (single_row_frame now [a, mn, mx, r]) ''temp_volatility_6h'' = Inr [None]
   \<and> consumed_features (single_row_frame now [a, mn, mx, r])
         [''aod_lag_1'', ''aod_lag_2'', ''aod_lag_3'', ''aod_rolling_3'', ''aod_rolling_6'',
          ''temp_rolling_3'', ''aod_volatility_3h'']
       = Inr [[0, 0, 0, a, a, (mx + mn) / 2, 0]]
   \<and> consumed_features (single_row_frame now [a, mn, mx, r]) get_advanced_feature_list
       = Inr [[a, mn, mx, r,
               real (ts_hour now), real (ts_dayofweek now), real (ts_month now),
               (if ts_dayofweek now = 5 \<or> ts_dayofweek now = 6 then 1 else 0),
               sin (2 * pi * real (ts_hour now) / 24), cos (2 * pi * real (ts_hour now) / 24),
               sin (2 * pi * real (ts_dayofyear now) / 365.25),
               cos (2 * pi * real (ts_dayofyear now) / 365.25),
               mx - mn, (mx + mn) / 2, clip (synthetic_humidity mx r) 20 90,
               fillna0 (log1p a), a\<^sup>2, fillna0 (np_sqrt a),
               a * ((mx + mn) / 2), a * (1 + r),
               0, 0, 0, a, a, (mx + mn) / 2, 0]]
   \<and> (\<exists>out. create_advanced_features (single_row_frame now [a, mn, mx, r]) = Inr out)"
proof -
  from single_row_pipeline [of now a mn mx r] obtain out where
    run: "create_advanced_features (single_row_frame now [a, mn, mx, r]) = Inr out" and
    cols: "recorded_at out = [now]"
      "map_of (columns out) ''satellite_aod'' = Some [Some a]"
      "map_of (columns out) ''min_temp'' = Some [Some mn]"
      "map_of (columns out) ''max_temp'' = Some [Some mx]"
      "map_of (columns out) ''rainfall'' = Some [Some r]"
      "map_of (columns out) ''hour'' = Some [Some (real (ts_hour now))]"
      "map_of (columns out) ''day_of_week'' = Some [Some (real (ts_dayofweek now))]"
      "map_of (columns out) ''month'' = Some [Some (real (ts_month now))]"
      "map_of (columns out) ''is_weekend'' =
            Some [Some (if ts_dayofweek now = 5 \<or> ts_dayofweek now = 6 then 1 else 0)]"
      "map_of (columns out) ''hour_sin'' = Some [Some (sin (2 * pi * real (ts_hour now) / 24))]"
      "map_of (columns out) ''hour_cos'' = Some [Some (cos (2 * pi * real (ts_hour now) / 24))]"
      "map_of (columns out) ''season_sin'' =
            Some [Some (sin (2 * pi * real (ts_dayofyear now) / 365.25))]"
      "map_of (columns out) ''season_cos'' =
            Some [Some (cos (2 * pi * real (ts_dayofyear now) / 365.25))]"
      "map_of (columns out) ''temp_range'' = Some [Some (mx - mn)]"
      "map_of (columns out) ''avg_temp'' = Some [Some ((mx + mn) / 2)]"
      "map_of (columns out) ''humidity'' = Some [Some (clip (synthetic_humidity mx r) 20 90)]"
      "map_of (columns out) ''aod_log'' = Some [log1p a]"
      "map_of (columns out) ''aod_squared'' = Some [Some (a\<^sup>2)]"
      "map_of (columns out) ''aod_sqrt'' = Some [np_sqrt a]"
      "map_of (columns out) ''aod_temp_interaction'' = Some [Some (a * ((mx + mn) / 2))]"
      "map_of (columns out) ''aod_rainfall_interaction'' = Some [Some (a * (1 + r))]"
      "map_of (columns out) ''aod_lag_1'' = Some [None]"
      "map_of (columns out) ''aod_lag_2'' = Some [None]"
      "map_of (columns out) ''aod_lag_3'' = Some [None]"
      "map_of (columns out) ''aod_lag_6'' = Some [None]"
      "map_of (columns out) ''aod_lag_12'' = Some [None]"
      "map_of (columns out) ''aod_lag_24'' = Some [None]"
      "map_of (columns out) ''aod_rolling_3'' = Some [Some a]"
      "map_of (columns out) ''aod_rolling_6'' = Some [Some a]"
      "map_of (columns out) ''aod_rolling_12'' = Some [Some a]"
      "map_of (columns out) ''aod_rolling_24'' = Some [Some a]"
      "map_of (columns out) ''temp_rolling_3'' = Some [Some ((mx + mn) / 2)]"
      "map_of (columns out) ''temp_rolling_6'' = Some [Some ((mx + mn) / 2)]"
      "map_of (columns out) ''temp_rolling_12'' = Some [Some ((mx + mn) / 2)]"
      "map_of (columns out) ''temp_rolling_24'' = Some [Some ((mx + mn) / 2)]"
      "map_of (columns out) ''aod_volatility_3h'' = Some [None]"
      "map_of (columns out) ''temp_volatility_6h'' = Some [None]"
    by blast
  have cells: "fillna0 None = 0" "fillna0 (Some v) = v" for v
    by (simp_all add: fillna0_def)
  have lags: "list_all (\<lambda>k. derived_column (single_row_frame now [a, mn, mx, r])
                     (''aod_lag_'' @ string_of_nat k) = Inr [None]) [1, 2, 3, 6, 12, 24]"
    by (simp add: derived_column_def run lag_names get_col_Some cols)
  have rolls: "list_all (\<lambda>w. derived_column (single_row_frame now [a, mn, mx, r])
                     (''aod_rolling_'' @ string_of_nat w) = Inr [Some a]
                 \<and> derived_column (single_row_frame now [a, mn, mx, r])
                     (''temp_rolling_'' @ string_of_nat w) = Inr [Some ((mx + mn) / 2)])
        [3, 6, 12, 24]"
    by (simp add: derived_column_def run lag_names get_col_Some cols)
  have vols: "derived_column (single_row_frame now [a, mn, mx, r]) ''aod_volatility_3h'' = Inr [None]"
    "derived_column (single_row_frame now [a, mn, mx, r]) ''temp_volatility_6h'' = Inr [None]"
    by (simp_all add: derived_column_def run get_col_Some cols)
  have some: "consumed_features (single_row_frame now [a, mn, mx, r])
         [''aod_lag_1'', ''aod_lag_2'', ''aod_lag_3'', ''aod_rolling_3'', ''aod_rolling_6'',
          ''temp_rolling_3'', ''aod_volatility_3h'']
       = Inr [[0, 0, 0, a, a, (mx + mn) / 2, 0]]"
    by (simp add: consumed_features_def run get_col_Some cols select_features_def
        single_cells cells)
  note full = single_row_consumed [of now a mn mx r]
  from lags rolls vols some full run show ?thesis by blast
qed

text \<open>
  Claim C4 as stated fails: for the observation with AOD 300 the lag column is not the
  current AOD, and the consumed lag and volatility features are not 300.
\<close>

theorem C4_counterexample:
  "derived_column (single_row_frame example_now [300, 25, 35, 0]) ''aod_lag_1'' \<noteq> Inr [Some 300]
   \<and> consumed_features (single_row_frame example_now [300, 25, 35, 0])
         [''aod_lag_1'', ''aod_volatility_3h''] \<noteq> Inr [[300, 300]]"
proof -
  from single_row_pipeline [of example_now 300 25 35 0] obtain out where
    run: "create_advanced_features (single_row_frame example_now [300, 25, 35, 0]) = Inr out" and
    cols: "recorded_at out = [example_now]"
      "map_of (columns out) ''aod_lag_1'' = Some [None]"
      "map_of (columns out) ''aod_volatility_3h'' = Some [None]"
    by blast
  show ?thesis
    by (simp add: derived_column_def consumed_features_def run get_col_Some cols
        select_features_def single_cells fillna0_def)
qed



subsection \<open>Claims about the dispatcher\<close>

lemma forced_dispatch:
  "truthy data \<Longrightarrow>
   forced_endpoint st now data t =
     (if tier_available st t then tier_handler st now data t
      else jsonify_error (unavailable_message t) 500)"
  by (cases t) (simp_all add: calibrate_basic_def calibrate_ensemble_def calibrate_advanced_def)

lemma falsy_rejected:
  "\<not> truthy data \<Longrightarrow>
   calibrate_aod st now data = jsonify_error ''No JSON data provided'' 400
   \<and> forced_endpoint st now data t = jsonify_error ''No JSON data provided'' 400"
  by (cases t)
    (simp_all add: calibrate_aod_def calibrate_basic_def calibrate_ensemble_def
      calibrate_advanced_def)

text \<open>
  Claim C6, as amended. For a forced-tier request whose body passes the body check: if the
  named tier is not available (in particular if one of its artifacts is not loaded) the
  endpoint answers with status 500 and the message that names that tier, a message no
  other tier and no other error shares; if the tier is available the endpoint is that
  tier's handler; a result (status 200) names that tier as its source, so no other tier
  ever serves the request.
\<close>

theorem C6_forced_tier:
  assumes "truthy data"
  shows "(\<not> tier_available st t \<longrightarrow>
            forced_endpoint st now data t = jsonify_error (unavailable_message t) 500)
       \<and> (\<not> models_available st t \<longrightarrow>
            forced_endpoint st now data t = jsonify_error (unavailable_message t) 500)
       \<and> (tier_available st t \<longrightarrow> forced_endpoint st now data t = tier_handler st now data t)
       \<and> (status (forced_endpoint st now data t) = 200 \<longrightarrow>
            source_of (forced_endpoint st now data t) = Some (JStr (tier_source t)))
       \<and> (\<forall>t'. unavailable_message t' = unavailable_message t \<longrightarrow> t' = t)
       \<and> unavailable_message t \<noteq> ''No models available''
       \<and> unavailable_message t \<noteq> ''No JSON data provided''"
proof -
  note d = forced_dispatch [OF assms, of st now t]
  have 1: "\<not> tier_available st t \<longrightarrow>
            forced_endpoint st now data t = jsonify_error (unavailable_message t) 500"
    by (simp add: d)
  have 2: "\<not> models_available st t \<longrightarrow>
            forced_endpoint st now data t = jsonify_error (unavailable_message t) 500"
    using available_loaded [of st t] by (auto simp: d)
  have 3: "tier_available st t \<longrightarrow> forced_endpoint st now data t = tier_handler st now data t"
    by (simp add: d)
  have 4: "status (forced_endpoint st now data t) = 200 \<longrightarrow>
            source_of (forced_endpoint st now data t) = Some (JStr (tier_source t))"
    using handler_ok_source [of st now data t]
    by (auto simp: d jsonify_error_def)
  have 5: "\<forall>t'. unavailable_message t' = unavailable_message t \<longrightarrow> t' = t"
  proof (intro allI impI)
    fix t' assume "unavailable_message t' = unavailable_message t"
    then show "t' = t" by (cases t; cases t') simp_all
  qed
  have 6: "unavailable_message t \<noteq> ''No models available''"
    "unavailable_message t \<noteq> ''No JSON data provided''"
    by (cases t; simp)+
  from 1 2 3 4 5 6 show ?thesis by blast
qed

theorem C6_forced_tier_witness:
  "truthy example_body
   \<and> \<not> models_available basic_registry Advanced
   \<and> calibrate_advanced basic_registry example_now example_body
       = jsonify_error ''Advanced model not available'' 500
   \<and> \<not> models_available basic_registry Ensemble
   \<and> calibrate_ensemble basic_registry example_body
       = jsonify_error ''Ensemble model not available'' 500
   \<and> tier_available basic_registry Basic
   \<and> calibrate_basic basic_registry example_body
       = calibrate_with_basic_model basic_registry example_body
   \<and> status (calibrate_basic basic_registry example_body) = 200
   \<and> source_of (calibrate_basic basic_registry example_body) = Some (JStr ''basic_model'')"
proof -
  have t: "truthy example_body" by (simp add: example_body_def)
  have a: "\<not> models_available basic_registry Advanced" "\<not> models_available basic_registry Ensemble"
    by (simp_all add: basic_registry_def empty_registry_def)
  have b: "tier_available basic_registry Basic"
    by (simp add: basic_available_def basic_registry_def empty_registry_def feature_model_def
        halving_scaler_def)
  have s: "status (forced_endpoint basic_registry example_now example_body Basic) = 200"
    by (simp add: calibrate_basic_def example_body_def basic_available_def
        basic_registry_def empty_registry_def feature_model_def halving_scaler_def
        calibrate_with_basic_model_def basic_prediction_def four_features_def raw_features_def
        jsonify_def)
  from C6_forced_tier [OF t, of basic_registry Advanced example_now] a
  have 1: "calibrate_advanced basic_registry example_now example_body
       = jsonify_error ''Advanced model not available'' 500"
    unfolding forced_endpoint.simps unavailable_message.simps by blast
  from C6_forced_tier [OF t, of basic_registry Ensemble example_now] a
  have 2: "calibrate_ensemble basic_registry example_body
       = jsonify_error ''Ensemble model not available'' 500"
    unfolding forced_endpoint.simps unavailable_message.simps by blast
  from C6_forced_tier [OF t, of basic_registry Basic example_now] b s
  have 3: "calibrate_basic basic_registry example_body
       = calibrate_with_basic_model basic_registry example_body"
    "source_of (calibrate_basic basic_registry example_body) = Some (JStr ''basic_model'')"
    unfolding forced_endpoint.simps tier_handler.simps tier_source.simps by blast+
  from s have s': "status (calibrate_basic basic_registry example_body) = 200" by simp
  from t a b s' 1 2 3 show ?thesis by blast
qed

text \<open>
  Claim C6 as stated fails for a request without a body: with nothing loaded, the forced
  basic endpoint answers the null body with the bad-input error, not with the
  tier-unavailable error.
\<close>

theorem C6_counterexample:
  "\<not> models_available empty_registry Basic
   \<and> calibrate_basic empty_registry JNull \<noteq> jsonify_error ''Basic model not available'' 500
   \<and> calibrate_basic empty_registry JNull = jsonify_error ''No JSON data provided'' 400"
  by (simp add: empty_registry_def calibrate_basic_def jsonify_error_def)

lemma raw_features_missing:
  "first_missing kvs = Some k \<Longrightarrow> raw_features (JObj kvs) = Inl (KeyError k)"
  by (auto simp: first_missing_def required_fields_def raw_features_def split: if_splits)

lemma tier_prediction_missing:
  assumes "first_missing kvs = Some k"
  shows "tier_prediction st now (JObj kvs) t = Inl (KeyError k)"
  using raw_features_missing [OF assms]
  by (cases t)
    (simp_all add: basic_prediction_def ensemble_prediction_def advanced_prediction_def
      four_features_def)

lemma tier_handler_missing:
  assumes "first_missing kvs = Some k"
  shows "status (tier_handler st now (JObj kvs) t) = 500"
  using handler_cases [of st now "JObj kvs" t] tier_prediction_missing [OF assms, of st now t]
  by simp

text \<open>
  Claim C5, as amended. A body that fails the body check (null, or otherwise false as a
  Python value) is answered on every endpoint with \<open>No JSON data provided\<close>, status
  400. A JSON object that lacks one of the four required fields is not treated as bad
  input: every tier's prediction raises \<open>KeyError\<close> for the first missing field, each
  handler turns it into its own error with status 500, and no endpoint answers 200, so no
  prediction is produced; for a non-empty object the status is 500 on every endpoint.
\<close>

theorem C5_invalid_input:
  "(\<not> truthy data \<longrightarrow>
      calibrate_aod st now data = jsonify_error ''No JSON data provided'' 400
      \<and> forced_endpoint st now data t = jsonify_error ''No JSON data provided'' 400)
   \<and> (first_missing kvs = Some k \<longrightarrow>
        tier_prediction st now (JObj kvs) t = Inl (KeyError k)
        \<and> calibrate_with_basic_model st (JObj kvs)
            = jsonify_error (''Basic model error: '' @ str_of_error (KeyError k)) 500
        \<and> calibrate_with_ensemble_model st (JObj kvs)
            = jsonify_error (''Ensemble model error: '' @ str_of_error (KeyError k)) 500
        \<and> calibrate_with_advanced_model st now (JObj kvs)
            = jsonify_error (''Advanced model error: '' @ str_of_error (KeyError k)) 500
        \<and> status (calibrate_aod st now (JObj kvs)) \<noteq> 200
        \<and> status (forced_endpoint st now (JObj kvs) t) \<noteq> 200
        \<and> (kvs \<noteq> [] \<longrightarrow> status (calibrate_aod st now (JObj kvs)) = 500
                         \<and> status (forced_endpoint st now (JObj kvs) t) = 500))"
proof -
  have A: "\<not> truthy data \<longrightarrow>
      calibrate_aod st now data = jsonify_error ''No JSON data provided'' 400
      \<and> forced_endpoint st now data t = jsonify_error ''No JSON data provided'' 400"
    using falsy_rejected by blast
  have B: "tier_prediction st now (JObj kvs) t = Inl (KeyError k)
        \<and> calibrate_with_basic_model st (JObj kvs)
            = jsonify_error (''Basic model error: '' @ str_of_error (KeyError k)) 500
        \<and> calibrate_with_ensemble_model st (JObj kvs)
            = jsonify_error (''Ensemble model error: '' @ str_of_error (KeyError k)) 500
        \<and> calibrate_with_advanced_model st now (JObj kvs)
            = jsonify_error (''Advanced model error: '' @ str_of_error (KeyError k)) 500
        \<and> status (calibrate_aod st now (JObj kvs)) \<noteq> 200
        \<and> status (forced_endpoint st now (JObj kvs) t) \<noteq> 200
        \<and> (kvs \<noteq> [] \<longrightarrow> status (calibrate_aod st now (JObj kvs)) = 500
                         \<and> status (forced_endpoint st now (JObj kvs) t) = 500)"
    if m: "first_missing kvs = Some k"
  proof -
    note p = tier_prediction_missing [OF m, of st now]
    have h: "status (tier_handler st now (JObj kvs) t') = 500" for t'
      by (rule tier_handler_missing [OF m])
    have b: "calibrate_with_basic_model st (JObj kvs)
            = jsonify_error (''Basic model error: '' @ str_of_error (KeyError k)) 500"
      using p [of Basic] by (simp add: calibrate_with_basic_model_def)
    have e: "calibrate_with_ensemble_model st (JObj kvs)
            = jsonify_error (''Ensemble model error: '' @ str_of_error (KeyError k)) 500"
      using p [of Ensemble]
      by (cases "ensemble_prediction st (JObj kvs)") (simp_all add: calibrate_with_ensemble_model_def)
    have a: "calibrate_with_advanced_model st now (JObj kvs)
            = jsonify_error (''Advanced model error: '' @ str_of_error (KeyError k)) 500"
      using p [of Advanced]
      by (cases "advanced_prediction st now (JObj kvs)") (simp_all add: calibrate_with_advanced_model_def)
    have c: "status (calibrate_aod st now (JObj kvs)) = (if kvs = [] then 400 else 500)"
      using h [of Basic] h [of Ensemble] h [of Advanced]
      by (simp add: calibrate_aod_def jsonify_error_def)
    have f: "status (forced_endpoint st now (JObj kvs) t) = (if kvs = [] then 400 else 500)"
    proof (cases "kvs = []")
      case True
      then show ?thesis using falsy_rejected [of "JObj kvs" st now t]
        by (simp add: jsonify_error_def)
    next
      case False
      then show ?thesis using h [of t]
        by (simp add: forced_dispatch jsonify_error_def)
    qed
    from p [of t] b e a c f show ?thesis by simp
  qed
  from A B show ?thesis by blast
qed

theorem C5_invalid_input_witness:
  "\<not> truthy JNull
   \<and> calibrate_aod basic_registry example_now JNull = jsonify_error ''No JSON data provided'' 400
   \<and> first_missing [(''satellite_aod'', JNum 300)] = Some ''min_temp''
   \<and> calibrate_with_basic_model basic_registry (JObj [(''satellite_aod'', JNum 300)])
       = jsonify_error (''Basic model error: '' @ str_of_error (KeyError ''min_temp'')) 500
   \<and> status (calibrate_aod basic_registry example_now (JObj [(''satellite_aod'', JNum 300)])) = 500"
proof -
  have m: "first_missing [(''satellite_aod'', JNum 300)] = Some ''min_temp''"
    by (simp add: first_missing_def required_fields_def)
  from C5_invalid_input [of JNull basic_registry example_now Basic
      "[(''satellite_aod'', JNum 300)]" "''min_temp''"] m
  show ?thesis by simp
qed

text \<open>
  Claim C5 as stated fails: a body with only \<open>satellite_aod\<close>, sent while the basic tier
  is loaded, is answered with status 500 and the basic tier's error, not with status 400.
\<close>

theorem C5_counterexample:
  "first_missing [(''satellite_aod'', JNum 300)] = Some ''min_temp''
   \<and> status (calibrate_aod basic_registry example_now (JObj [(''satellite_aod'', JNum 300)])) = 500
   \<and> status (calibrate_aod basic_registry example_now (JObj [(''satellite_aod'', JNum 300)])) \<noteq> 400
   \<and> payload (calibrate_basic basic_registry (JObj [(''satellite_aod'', JNum 300)]))
       = JObj [(''error'', JStr (''Basic model error: '' @ str_of_error (KeyError ''min_temp'')))]"
  by (simp add: first_missing_def required_fields_def calibrate_aod_def calibrate_basic_def
      advanced_available_def ensemble_available_def basic_available_def basic_registry_def
      empty_registry_def feature_model_def halving_scaler_def calibrate_with_basic_model_def
      basic_prediction_def four_features_def raw_features_def jsonify_error_def)

text \<open>
  Claim C9. Whatever tier runs, its handler either fails with status 500 or returns, with
  status 200, exactly the normalized result of that tier: the prediction rounded to two
  decimals (within 0.005 of it, a whole number of hundredths), the tier's source name, its
  version (1.0, 2.0, 3.0), its confidence label (standard, high, very\_high) and its extra
  (the weight map of the loaded ensemble; the length of the loaded feature list). Every
  response with status 200 of the main endpoint and of the forced endpoints is such a
  result.
\<close>

theorem C9_response_normalization:
  "(case tier_prediction st now data t of
      Inr p \<Rightarrow> tier_handler st now data t = normalized_result st t p
    | Inl e \<Rightarrow> status (tier_handler st now data t) = 500)
   \<and> \<bar>round2 p - p\<bar> \<le> 1 / 200
   \<and> round2 p * 100 = of_int (rint (p * 100))
   \<and> (status (calibrate_aod st now data) = 200 \<longrightarrow>
        (\<exists>t' p'. default_model st = Some t' \<and> tier_prediction st now data t' = Inr p'
           \<and> calibrate_aod st now data = normalized_result st t' p'))
   \<and> (status (forced_endpoint st now data t) = 200 \<longrightarrow>
        (\<exists>p'. tier_prediction st now data t = Inr p'
           \<and> forced_endpoint st now data t = normalized_result st t p'))
   \<and> (tier_prediction st now data Ensemble = Inr p \<longrightarrow> ensemble_model st \<noteq> None)
   \<and> (tier_prediction st now data Advanced = Inr p \<longrightarrow> advanced_features st \<noteq> None)"
proof -
  have ok: "\<exists>p'. tier_prediction st now data t' = Inr p'
              \<and> tier_handler st now data t' = normalized_result st t' p'"
    if "status (tier_handler st now data t') = 200" for t'
    using handler_cases [of st now data t'] that
    by (cases "tier_prediction st now data t'") simp_all
  have main: "status (calibrate_aod st now data) = 200 \<longrightarrow>
        (\<exists>t' p'. default_model st = Some t' \<and> tier_prediction st now data t' = Inr p'
           \<and> calibrate_aod st now data = normalized_result st t' p')"
  proof
    assume s: "status (calibrate_aod st now data) = 200"
    then have t: "truthy data"
      by (auto simp: calibrate_aod_def jsonify_error_def split: if_splits)
    show "\<exists>t' p'. default_model st = Some t' \<and> tier_prediction st now data t' = Inr p'
           \<and> calibrate_aod st now data = normalized_result st t' p'"
    proof (cases "default_model st")
      case None
      with s t show ?thesis by (simp add: calibrate_dispatch jsonify_error_def)
    next
      case (Some t')
      with s t ok [of t'] show ?thesis by (simp add: calibrate_dispatch)
    qed
  qed
  have forced: "status (forced_endpoint st now data t) = 200 \<longrightarrow>
        (\<exists>p'. tier_prediction st now data t = Inr p'
           \<and> forced_endpoint st now data t = normalized_result st t p')"
  proof
    assume s: "status (forced_endpoint st now data t) = 200"
    have t: "truthy data"
    proof (rule ccontr)
      assume "\<not> truthy data"
      from falsy_rejected [OF this, of st now t] s show False
        by (simp add: jsonify_error_def)
    qed
    from s t ok [of t] show "\<exists>p'. tier_prediction st now data t = Inr p'
           \<and> forced_endpoint st now data t = normalized_result st t p'"
      by (simp add: forced_dispatch jsonify_error_def split: if_splits)
  qed
  have ens: "tier_prediction st now data Ensemble = Inr p \<longrightarrow> ensemble_model st \<noteq> None"
    using ensemble_prediction_Inr [of st data]
    by (cases "ensemble_prediction st data") auto
  have adv: "tier_prediction st now data Advanced = Inr p \<longrightarrow> advanced_features st \<noteq> None"
    using advanced_prediction_Inr [of st now data]
    by (cases "advanced_prediction st now data") auto
  from handler_cases [of st now data t] round2_close [of p] round2_hundredths [of p]
    main forced ens adv
  show ?thesis by blast
qed


lemma example_ensemble_prediction:
  "ensemble_prediction full_registry example_body
     = Inr (625 / 3, get_model_info example_ensemble)"
  by (simp add: ensemble_prediction_def four_features_def raw_features_def example_body_def
      full_registry_def predict_def example_ensemble_def feature_model_def)

lemma round2_example: "round2 (625 / 3) = 20833 / 100"
  by (simp add: round2_def rint_def Let_def)

lemma round2_whole: "round2 150 = 150"
  by (simp add: round2_def rint_def)

theorem C9_response_normalization_witness:
  "status (calibrate_ensemble full_registry example_body) = 200
   \<and> calibrate_ensemble full_registry example_body =
       \<lparr>payload = JObj [(''calibrated_pm25'', JNum (20833 / 100)),
                        (''source'', JStr ''ensemble_model''),
                        (''model_version'', JStr ''2.0''),
                        (''confidence'', JStr ''high''),
                        (''ensemble_weights'',
                           JObj [(''gb'', JNum (2 / 3)), (''linear'', JNum (1 / 3))])],
        status = 200\<rparr>
   \<and> \<bar>round2 (625 / 3) - 625 / 3\<bar> \<le> 1 / 200
   \<and> status (calibrate_aod full_registry example_now example_body) = 200
   \<and> calibrate_aod full_registry example_now example_body =
       \<lparr>payload = JObj [(''calibrated_pm25'', JNum 150),
                        (''source'', JStr ''advanced_model''),
                        (''model_version'', JStr ''3.0''),
                        (''confidence'', JStr ''very_high''),
                        (''features_used'', JNum 27)],
        status = 200\<rparr>
   \<and> tier_prediction full_registry example_now example_body Ensemble = Inr (625 / 3)
   \<and> ensemble_model full_registry \<noteq> None
   \<and> tier_prediction full_registry example_now example_body Advanced = Inr 150
   \<and> advanced_features full_registry \<noteq> None"
proof -
  have tb: "truthy example_body" by (simp add: example_body_def)
  have pe: "tier_prediction full_registry example_now example_body Ensemble = Inr (625 / 3)"
    by (simp add: example_ensemble_prediction)
  have pa: "tier_prediction full_registry example_now example_body Advanced = Inr 150"
    by (simp add: example_advanced_prediction)
  have s: "status (forced_endpoint full_registry example_now example_body Ensemble) = 200"
  proof -
    have "tier_handler full_registry example_now example_body Ensemble
            = normalized_result full_registry Ensemble (625 / 3)"
      using handler_cases [of full_registry example_now example_body Ensemble]
      by (simp add: example_ensemble_prediction)
    moreover have "tier_available full_registry Ensemble"
      by (simp add: ensemble_available_def full_registry_def)
    ultimately show ?thesis using tb
      by (simp add: forced_dispatch normalized_result_def del: forced_endpoint.simps tier_handler.simps)
  qed
  have d: "default_model full_registry = Some Advanced"
    by (simp add: default_model_def advanced_available_def full_registry_def feature_model_def
        halving_scaler_def get_advanced_feature_list_def)
  have sa: "status (calibrate_aod full_registry example_now example_body) = 200"
  proof -
    have "tier_handler full_registry example_now example_body Advanced
            = normalized_result full_registry Advanced 150"
      using handler_cases [of full_registry example_now example_body Advanced]
      by (simp add: example_advanced_prediction)
    with tb d show ?thesis
      by (simp add: calibrate_dispatch normalized_result_def del: tier_handler.simps)
  qed
  note inst = C9_response_normalization [of full_registry example_now example_body Ensemble "625 / 3"]
  note inst' = C9_response_normalization [of full_registry example_now example_body Advanced 150]
  from inst pe have ne: "ensemble_model full_registry \<noteq> None" by blast
  from inst' pa have na: "advanced_features full_registry \<noteq> None" by blast
  from inst s
  obtain p' where "tier_prediction full_registry example_now example_body Ensemble = Inr p'"
    and r: "forced_endpoint full_registry example_now example_body Ensemble
             = normalized_result full_registry Ensemble p'"
    and c: "\<bar>round2 (625 / 3) - 625 / 3\<bar> \<le> 1 / 200"
    by blast
  then have p': "p' = 625 / 3" by (simp add: example_ensemble_prediction)
  from r p' have e: "calibrate_ensemble full_registry example_body =
       \<lparr>payload = JObj [(''calibrated_pm25'', JNum (20833 / 100)),
                        (''source'', JStr ''ensemble_model''),
                        (''model_version'', JStr ''2.0''),
                        (''confidence'', JStr ''high''),
                        (''ensemble_weights'',
                           JObj [(''gb'', JNum (2 / 3)), (''linear'', JNum (1 / 3))])],
        status = 200\<rparr>"
    by (simp add: normalized_result_def round2_example full_registry_def example_ensemble_def)
  from inst sa d
  obtain q where "tier_prediction full_registry example_now example_body Advanced = Inr q"
    and ra: "calibrate_aod full_registry example_now example_body
             = normalized_result full_registry Advanced q"
    by auto
  then have q: "q = 150" by (simp add: example_advanced_prediction)
  from ra q have a: "calibrate_aod full_registry example_now example_body =
       \<lparr>payload = JObj [(''calibrated_pm25'', JNum 150),
                        (''source'', JStr ''advanced_model''),
                        (''model_version'', JStr ''3.0''),
                        (''confidence'', JStr ''very_high''),
                        (''features_used'', JNum 27)],
        status = 200\<rparr>"
    by (simp add: normalized_result_def round2_whole full_registry_def
        get_advanced_feature_list_def)
  from s have s': "status (calibrate_ensemble full_registry example_body) = 200" by simp
  from s' e c sa a pe ne pa na show ?thesis by blast
qed

subsection \<open>Claims about the weights of the ensemble\<close>









subsection \<open>Claims about the ensemble combiner\<close>

lemma weighted_sum_vec:
  assumes "\<forall>name \<in> set names. \<exists>w p. map_of ws name = Some w \<and> map_of ps name = Some p \<and> length p = n"
    and "length acc = n"
  shows "weighted_sum ws ps names (Vec acc)
           = Inr (Vec (map (\<lambda>i. acc ! i + blend ws ps names i) [0..<n]))"
  using assms
proof (induction names arbitrary: acc)
  case Nil
  then have "map ((!) acc) [0..<n] = acc" by (auto simp: map_nth)
  then show ?case
    by (simp add: blend_def)
next
  case (Cons name names)
  from Cons.prems obtain w p where
    w: "map_of ws name = Some w" and p: "map_of ps name = Some p" and lp: "length p = n"
    by auto
  let ?acc' = "map2 (+) acc (map (\<lambda>y. w * y) p)"
  have l: "length ?acc' = n" using Cons.prems(2) lp by simp
  have rest: "\<forall>name \<in> set names. \<exists>w p. map_of ws name = Some w \<and> map_of ps name = Some p \<and> length p = n"
    using Cons.prems(1) by simp
  have step: "weighted_sum ws ps (name # names) (Vec acc) = weighted_sum ws ps names (Vec ?acc')"
    using w p lp Cons.prems(2) by simp
  have "map (\<lambda>i. ?acc' ! i + blend ws ps names i) [0..<n]
        = map (\<lambda>i. acc ! i + blend ws ps (name # names) i) [0..<n]"
    using lp Cons.prems(2) w p by (auto simp: blend_def)
  with Cons.IH [OF rest l] step show ?case by simp
qed

lemma weighted_sum_start:
  assumes "names \<noteq> []"
    and "\<forall>name \<in> set names. \<exists>w p. map_of ws name = Some w \<and> map_of ps name = Some p \<and> length p = n"
  shows "weighted_sum ws ps names (Scalar 0) = Inr (Vec (map (blend ws ps names) [0..<n]))"
proof -
  from assms obtain name rest where names: "names = name # rest" by (cases names) auto
  from assms(2) names obtain w p where
    w: "map_of ws name = Some w" and p: "map_of ps name = Some p" and lp: "length p = n"
    by auto
  have rest: "\<forall>name \<in> set rest. \<exists>w p. map_of ws name = Some w \<and> map_of ps name = Some p \<and> length p = n"
    using assms(2) names by simp
  have "weighted_sum ws ps names (Scalar 0) = weighted_sum ws ps rest (Vec (map (\<lambda>y. w * y) p))"
    using w p by (simp add: names)
  also have "\<dots> = Inr (Vec (map (\<lambda>i. map (\<lambda>y. w * y) p ! i + blend ws ps rest i) [0..<n]))"
    by (rule weighted_sum_vec [OF rest]) (simp add: lp)
  also have "map (\<lambda>i. map (\<lambda>y. w * y) p ! i + blend ws ps rest i) [0..<n]
             = map (blend ws ps names) [0..<n]"
    using lp w p by (auto simp: blend_def names)
  finally show ?thesis .
qed


lemma run_models_names:
  "run_models ms X = Inr ps \<Longrightarrow> map fst ps = map fst ms"
proof (induction ms arbitrary: ps)
  case Nil
  then show ?case by simp
next
  case (Cons m ms)
  obtain name mdl where m: "m = (name, mdl)" by (cases m)
  from Cons.prems obtain p ps' where
    "run_models ms X = Inr ps'" and "ps = (name, p) # ps'"
    by (auto simp: m ebind_Inr_iff)
  with Cons.IH show ?case by (simp add: m)
qed

lemma predict_blend:
  assumes "ensure_scaled e X = Inr Xs"
    and "run_models (models e) Xs = Inr ps"
    and "models e \<noteq> []"
    and "\<forall>name \<in> set (map fst (models e)). map_of (weights e) name \<noteq> None"
    and "\<forall>(name, p) \<in> set ps. length p = n"
  shows "predict e X = Inr (Vec (map (blend (weights e) ps (map fst (models e))) [0..<n]))"
proof -
  have names: "map fst ps = map fst (models e)"
    by (rule run_models_names [OF assms(2)])
  have "\<exists>w p. map_of (weights e) name = Some w \<and> map_of ps name = Some p \<and> length p = n"
    if "name \<in> set (map fst (models e))" for name
  proof -
    from that assms(4) obtain w where w: "map_of (weights e) name = Some w" by auto
    from that names have "name \<in> fst ` set ps" by (metis set_map)
    then obtain p where p: "map_of ps name = Some p"
      by (metis map_of_eq_None_iff not_Some_eq)
    then have "(name, p) \<in> set ps" by (rule map_of_SomeD)
    with assms(5) have "length p = n" by auto
    with w p show ?thesis by blast
  qed
  then have "weighted_sum (weights e) ps (map fst (models e)) (Scalar 0)
        = Inr (Vec (map (blend (weights e) ps (map fst (models e))) [0..<n]))"
    using assms(3) by (intro weighted_sum_start) auto
  with assms(1,2) show ?thesis by (simp add: predict_def)
qed

lemma predict_list:
  "predict e (PyList rows) =
     ebind (run_models (models e) rows)
       (\<lambda>predictions. weighted_sum (weights e) predictions (map fst (models e)) (Scalar 0))"
  by (simp add: predict_def)

text \<open>
  Claim C3 against the code. Rows given to \<open>predict\<close> as a plain list, which is how the
  dispatcher passes them, reach the base learners without being scaled: the shared scaler
  is never applied. Only a numpy array of four columns is scaled, whether or not it was
  scaled before. On the example ensemble the unscaled row gives 625/3 as a list and 625/6
  as an array, and the already scaled row is scaled once more.
\<close>

theorem C3_list_rows_not_scaled:
  "ensure_scaled e (PyList rows) = Inr rows
   \<and> predict e (PyList rows) =
       ebind (run_models (models e) rows)
         (\<lambda>predictions. weighted_sum (weights e) predictions (map fst (models e)) (Scalar 0))
   \<and> sk_transform (scaler example_ensemble) [[300, 25, 35, 0]] = Inr [[150, 25 / 2, 35 / 2, 0]]
   \<and> predict example_ensemble (PyList [[300, 25, 35, 0]]) = Inr (Vec [625 / 3])
   \<and> predict example_ensemble (NdArray 4 [[300, 25, 35, 0]]) = Inr (Vec [625 / 6])
   \<and> predict example_ensemble (NdArray 4 [[150, 25 / 2, 35 / 2, 0]]) = Inr (Vec [625 / 12])"
  by (simp add: predict_def example_ensemble_def feature_model_def halving_scaler_def)

lemma weighted_sum_cong:
  assumes "\<forall>name \<in> set names. map_of ws' name = map_of ws name"
  shows "weighted_sum ws' ps names acc = weighted_sum ws ps names acc"
  using assms
proof (induction names arbitrary: acc)
  case Nil
  then show ?case by simp
next
  case (Cons name names)
  then have h: "map_of ws' name = map_of ws name"
    and t: "\<forall>n \<in> set names. map_of ws' n = map_of ws n"
    by simp_all
  have "weighted_sum ws' ps names = weighted_sum ws ps names"
    by (rule ext) (rule Cons.IH [OF t])
  then show ?case
    by (simp add: h split: option.splits)
qed

lemma weighted_sum_missing:
  assumes "name \<in> set names" and "map_of ws name = None"
  shows "\<exists>err. weighted_sum ws ps names acc = Inl err"
  using assms
proof (induction names arbitrary: acc)
  case Nil
  then show ?case by simp
next
  case (Cons n names)
  show ?case
  proof (cases "map_of ws n")
    case None
    then show ?thesis by simp
  next
    case (Some w)
    with Cons.prems have in_tail: "name \<in> set names" by auto
    show ?thesis
    proof (cases "map_of ps n")
      case None
      with Some show ?thesis by simp
    next
      case p: (Some p)
      show ?thesis
      proof (cases "nd_add acc (Vec (map (\<lambda>y. w * y) p))")
        case (Inl e)
        with Some p show ?thesis by simp
      next
        case (Inr acc')
        with Some p Cons.IH [OF in_tail Cons.prems(2), of acc'] show ?thesis by simp
      qed
    qed
  qed
qed

lemma ebind_Inl_cases:
  "(\<And>x. m = Inr x \<Longrightarrow> \<exists>err. f x = Inl err) \<Longrightarrow> \<exists>err. ebind m f = Inl err"
  by (cases m) simp_all

text \<open>
  Claim C7, as amended. If a learner of the model map has no entry in the weight map,
  \<open>predict\<close> fails. A name that is in the weight map only raises nothing and changes
  nothing: \<open>predict\<close> depends on the weight map only through the names of the model map.
\<close>

theorem C7_weight_model_consistency:
  "((\<exists>name \<in> set (map fst (models e)). map_of (weights e) name = None) \<longrightarrow>
      (\<exists>err. predict e X = Inl err))
   \<and> ((\<forall>name \<in> set (map fst (models e)). map_of ws' name = map_of (weights e) name) \<longrightarrow>
        predict (e\<lparr>weights := ws'\<rparr>) X = predict e X)"
proof -
  have A: "(\<exists>name \<in> set (map fst (models e)). map_of (weights e) name = None) \<longrightarrow>
      (\<exists>err. predict e X = Inl err)"
  proof
    assume "\<exists>name \<in> set (map fst (models e)). map_of (weights e) name = None"
    then obtain name where n: "name \<in> set (map fst (models e))" "map_of (weights e) name = None"
      by blast
    show "\<exists>err. predict e X = Inl err"
      unfolding predict_def
      by (intro ebind_Inl_cases weighted_sum_missing [OF n])
  qed
  have B: "(\<forall>name \<in> set (map fst (models e)). map_of ws' name = map_of (weights e) name) \<longrightarrow>
        predict (e\<lparr>weights := ws'\<rparr>) X = predict e X"
  proof
    assume a: "\<forall>name \<in> set (map fst (models e)). map_of ws' name = map_of (weights e) name"
    have s: "ensure_scaled (e\<lparr>weights := ws'\<rparr>) X = ensure_scaled e X"
      by (cases X) simp_all
    show "predict (e\<lparr>weights := ws'\<rparr>) X = predict e X"
      by (simp add: predict_def s weighted_sum_cong [OF a])
  qed
  from A B show ?thesis by blast
qed

theorem C7_weight_model_consistency_witness:
  "''linear'' \<in> set (map fst (models missing_weight_ensemble))
   \<and> map_of (weights missing_weight_ensemble) ''linear'' = None
   \<and> predict missing_weight_ensemble (PyList [[300, 25, 35, 0]]) = Inl (KeyError ''linear'')
   \<and> predict extra_weight_ensemble (PyList [[300, 25, 35, 0]])
       = predict (example_ensemble\<lparr>weights := [(''gb'', 1 / 2), (''linear'', 1 / 4)]\<rparr>)
           (PyList [[300, 25, 35, 0]])"
proof -
  have m: "''linear'' \<in> set (map fst (models missing_weight_ensemble))"
    "map_of (weights missing_weight_ensemble) ''linear'' = None"
    by (simp_all add: missing_weight_ensemble_def example_ensemble_def)
  from C7_weight_model_consistency [of missing_weight_ensemble "PyList [[300, 25, 35, 0]]"] m
  obtain err where e: "predict missing_weight_ensemble (PyList [[300, 25, 35, 0]]) = Inl err"
    by blast
  then have k: "predict missing_weight_ensemble (PyList [[300, 25, 35, 0]]) = Inl (KeyError ''linear'')"
    by (simp add: predict_def missing_weight_ensemble_def example_ensemble_def feature_model_def)
  have same: "\<forall>name \<in> set (map fst (models (example_ensemble\<lparr>weights := [(''gb'', 1 / 2), (''linear'', 1 / 4)]\<rparr>))).
      map_of [(''gb'', 1 / 2), (''linear'', 1 / 4), (''mlp'', 1 / 4 :: real)] name
      = map_of (weights (example_ensemble\<lparr>weights := [(''gb'', 1 / 2), (''linear'', 1 / 4)]\<rparr>)) name"
    by (simp add: example_ensemble_def)
  from C7_weight_model_consistency
    [of "example_ensemble\<lparr>weights := [(''gb'', 1 / 2), (''linear'', 1 / 4)]\<rparr>"
        "PyList [[300, 25, 35, 0]]"
        "[(''gb'', 1 / 2), (''linear'', 1 / 4), (''mlp'', 1 / 4)]"] same
  have "predict extra_weight_ensemble (PyList [[300, 25, 35, 0]])
       = predict (example_ensemble\<lparr>weights := [(''gb'', 1 / 2), (''linear'', 1 / 4)]\<rparr>)
           (PyList [[300, 25, 35, 0]])"
    by (simp add: extra_weight_ensemble_def)
  with m k show ?thesis by blast
qed

text \<open>
  Claim C7 as stated fails: the weight map names \<open>mlp\<close>, the model map has no such
  learner, and \<open>predict\<close> returns a blend of the two learners present.
\<close>

theorem C7_counterexample:
  "map_of (weights extra_weight_ensemble) ''mlp'' = Some (1 / 4)
   \<and> map_of (models extra_weight_ensemble) ''mlp'' = None
   \<and> predict extra_weight_ensemble (PyList [[300, 25, 35, 0]]) = Inr (Vec [625 / 4])
   \<and> predict extra_weight_ensemble (NdArray 4 [[300, 25, 35, 0]]) = Inr (Vec [625 / 8])"
  by (simp add: predict_def extra_weight_ensemble_def example_ensemble_def feature_model_def
      halving_scaler_def)

end
